theory Spec2Isabelle
  imports Complex_Main
begin

section \<open>Antioch kinetics: mass sources of a reaction set\<close>

text \<open>
  The file \<^verbatim>\<open>kinetics.h\<close> defines the class template \<^verbatim>\<open>Kinetics<NumericType>\<close>.
  The template parameter is modelled by a type variable of sort \<open>linordered_idom\<close>: an
  ordered commutative ring, which has the operations the class uses (comparison with
  zero, conversion from \<^verbatim>\<open>unsigned int\<close>, addition, subtraction, multiplication) with
  exact arithmetic; \<open>int\<close>, \<open>rat\<close> and \<open>real\<close> are instances. The instantiation
  with \<^verbatim>\<open>double\<close>, whose operations round, is modelled separately further down. The
  \<^verbatim>\<open>unsigned int\<close> counters, indices and stoichiometric coefficients are natural
  numbers: the only arithmetic the class does on them is the increment of a loop counter
  below a bound of the same type, which cannot wrap.
\<close>

subsection \<open>The collaborators declared outside \<^verbatim>\<open>kinetics.h\<close>\<close>

text \<open>
  Modelled from the spec: the class \<^verbatim>\<open>ChemicalMixture\<close> is only forward-declared in
  \<^verbatim>\<open>kinetics.h\<close>. The spec describes it as an ordered, fixed-size collection of
  species with dense indices from zero, each with a constant molar mass, read through
  \<^verbatim>\<open>n_species()\<close> and \<^verbatim>\<open>M(s)\<close>.
\<close>

record 'a ChemicalMixture =
  molar_masses :: "'a list"

definition ChemicalMixture_n_species :: "'a ChemicalMixture \<Rightarrow> nat" where
  "ChemicalMixture_n_species mixture = length (molar_masses mixture)"

definition M :: "'a ChemicalMixture \<Rightarrow> nat \<Rightarrow> 'a" where
  "M mixture s = molar_masses mixture ! s"

text \<open>
  Modelled from the spec: the class \<^verbatim>\<open>Reaction\<close> comes from \<^verbatim>\<open>reaction.h\<close>, which is
  not part of the sources. The spec describes a reaction as an ordered list of reactant
  entries and an ordered list of product entries, each entry a species index paired with
  a stoichiometric coefficient; the accessors below are the ones \<^verbatim>\<open>kinetics.h\<close> calls.
\<close>

record Reaction =
  reactants :: "(nat \<times> nat) list"
  products :: "(nat \<times> nat) list"

definition n_reactants :: "Reaction \<Rightarrow> nat" where
  "n_reactants reaction = length (reactants reaction)"

definition reactant_id :: "Reaction \<Rightarrow> nat \<Rightarrow> nat" where
  "reactant_id reaction r = fst (reactants reaction ! r)"

definition reactant_stoichiometric_coefficient :: "Reaction \<Rightarrow> nat \<Rightarrow> nat" where
  "reactant_stoichiometric_coefficient reaction r = snd (reactants reaction ! r)"

definition n_products :: "Reaction \<Rightarrow> nat" where
  "n_products reaction = length (products reaction)"

definition product_id :: "Reaction \<Rightarrow> nat \<Rightarrow> nat" where
  "product_id reaction p = fst (products reaction ! p)"

definition product_stoichiometric_coefficient :: "Reaction \<Rightarrow> nat \<Rightarrow> nat" where
  "product_stoichiometric_coefficient reaction p = snd (products reaction ! p)"

text \<open>
  Modelled from the spec: the class \<^verbatim>\<open>ReactionSet\<close> is only forward-declared in
  \<^verbatim>\<open>kinetics.h\<close>. It holds the reactions, refers to the mixture, and evaluates the rate
  laws. The rate laws are opaque: the field \<open>rate_law\<close> gives, for a thermodynamic state
  and a reaction index, the net rate of that reaction. It is a function of the state
  only, since the spec requires the aggregator to be deterministic and not to read the
  internal state of its caller.
\<close>

record 'a ReactionSet =
  chemical_mixture :: "'a ChemicalMixture"
  reactions :: "Reaction list"
  rate_law :: "'a \<Rightarrow> 'a \<Rightarrow> 'a \<Rightarrow> 'a list \<Rightarrow> 'a list \<Rightarrow> 'a list \<Rightarrow> nat \<Rightarrow> 'a"

definition ReactionSet_n_reactions :: "'a ReactionSet \<Rightarrow> nat" where
  "ReactionSet_n_reactions rs = length (reactions rs)"

definition ReactionSet_reaction :: "'a ReactionSet \<Rightarrow> nat \<Rightarrow> Reaction" where
  "ReactionSet_reaction rs rxn = reactions rs ! rxn"

text \<open>
  Modelled from the spec: \<^verbatim>\<open>ReactionSet::compute_reaction_rates\<close> is not part of the
  sources. The spec says that it receives the state and writes one net rate per reaction
  into the buffer it is handed, overwriting the prior contents. The buffer is passed by
  reference and written in place, entry by entry; the caller asserts beforehand that it
  has one entry per reaction.
\<close>

definition compute_reaction_rates ::
  "'a ReactionSet \<Rightarrow> 'a \<Rightarrow> 'a \<Rightarrow> 'a \<Rightarrow> 'a list \<Rightarrow> 'a list \<Rightarrow> 'a list \<Rightarrow> 'a list \<Rightarrow> 'a list" where
  "compute_reaction_rates rs T rho R_mix mass_fractions molar_densities h_RT_minus_s_R
       net_reaction_rates_buf =
     fold (\<lambda>rxn buf. buf[rxn := rate_law rs T rho R_mix mass_fractions molar_densities
                                    h_RT_minus_s_R rxn])
          [0..<ReactionSet_n_reactions rs] net_reaction_rates_buf"

subsection \<open>The class \<^verbatim>\<open>Kinetics\<close>\<close>

text \<open>
  The member \<^verbatim>\<open>_chem_mixture\<close> is a reference initialised from
  \<^verbatim>\<open>reaction_set.chemical_mixture()\<close>, so it is read through the reaction set; the
  only member with a value of its own is the work array.
\<close>

record 'a Kinetics =
  reaction_set :: "'a ReactionSet"
  net_reaction_rates :: "'a list"

definition n_species :: "'a Kinetics \<Rightarrow> nat" where
  "n_species this = ChemicalMixture_n_species (chemical_mixture (reaction_set this))"

definition n_reactions :: "'a Kinetics \<Rightarrow> nat" where
  "n_reactions this = ReactionSet_n_reactions (reaction_set this)"

text \<open>The constructor: binds the reaction set and allocates the zeroed work array.\<close>

definition Kinetics_ctor :: "'a::zero ReactionSet \<Rightarrow> 'a Kinetics" where
  "Kinetics_ctor rs =
     \<lparr> reaction_set = rs,
       net_reaction_rates = replicate (ReactionSet_n_reactions rs) 0 \<rparr>"

subsection \<open>Outcomes and statements\<close>

text \<open>
  A call mutates two things: the instance (its work array) and the caller's
  \<open>mass_sources\<close> vector. A call either returns, or stops at a failed assertion with
  the state as it is at that point, or indexes a vector out of its range, which is
  undefined behaviour in C++ and leaves no state to speak of.
\<close>

type_synonym 'a state = "'a Kinetics \<times> 'a list"

datatype 'a outcome =
    Returned "'a Kinetics" "'a list"
  | AssertionFailed "'a Kinetics" "'a list"
  | OutOfRange

type_synonym 'a stmt = "'a state \<Rightarrow> 'a outcome"

text \<open>Statements run in sequence; the first one that does not complete ends the call.\<close>

fun exec :: "'a stmt list \<Rightarrow> 'a stmt" where
  "exec [] st = Returned (fst st) (snd st)"
| "exec (c # cs) st =
     (case c st of
        Returned this' mass_sources' \<Rightarrow> exec cs (this', mass_sources')
      | AssertionFailed this' mass_sources' \<Rightarrow> AssertionFailed this' mass_sources'
      | OutOfRange \<Rightarrow> OutOfRange)"

text \<open>
  Modelled from the spec: the macros \<^verbatim>\<open>antioch_assert_greater\<close> and
  \<^verbatim>\<open>antioch_assert_equal_to\<close> are not defined in the sources. The spec says that a
  violated precondition is caught by an assertion-style check at the top of the
  computation and is fatal to it (in a build with validation).
\<close>

definition antioch_assert_greater :: "'a::ord \<Rightarrow> 'a \<Rightarrow> 'b stmt" where
  "antioch_assert_greater a b st =
     (if a > b then Returned (fst st) (snd st) else AssertionFailed (fst st) (snd st))"

definition antioch_assert_equal_to :: "nat \<Rightarrow> nat \<Rightarrow> 'b stmt" where
  "antioch_assert_equal_to a b st =
     (if a = b then Returned (fst st) (snd st) else AssertionFailed (fst st) (snd st))"

subsection \<open>The loops of \<^verbatim>\<open>compute_mass_sources\<close>\<close>

text \<open>
  \<^verbatim>\<open>for (unsigned int i = i0; i < n; i++) body\<close> over the \<open>mass_sources\<close> vector. The
  result is \<open>None\<close> when the body indexes a vector out of its range.
\<close>

function for_loop :: "nat \<Rightarrow> nat \<Rightarrow> (nat \<Rightarrow> 'a list \<Rightarrow> 'a list option) \<Rightarrow> 'a list \<Rightarrow> 'a list option" where
  "for_loop i n body mass_sources =
     (if i < n then
        (case body i mass_sources of
           None \<Rightarrow> None
         | Some mass_sources' \<Rightarrow> for_loop (Suc i) n body mass_sources')
      else Some mass_sources)"
  by pat_completeness auto
termination
  by (relation "measure (\<lambda>(i, n, body, mass_sources). n - i)") auto

declare for_loop.simps [simp del]

text \<open>\<^verbatim>\<open>mass_sources[r_id] -= (static_cast<NumericType>(r_stoich)*rate);\<close>\<close>

definition reactant_contribution ::
  "Reaction \<Rightarrow> 'a::linordered_idom \<Rightarrow> nat \<Rightarrow> 'a list \<Rightarrow> 'a list option" where
  "reactant_contribution reaction rate r mass_sources =
     (let r_id = reactant_id reaction r;
          r_stoich = reactant_stoichiometric_coefficient reaction r
      in if r_id < length mass_sources
         then Some (mass_sources[r_id := mass_sources ! r_id - of_nat r_stoich * rate])
         else None)"

text \<open>\<^verbatim>\<open>mass_sources[p_id] += (static_cast<NumericType>(p_stoich)*rate);\<close>\<close>

definition product_contribution ::
  "Reaction \<Rightarrow> 'a::linordered_idom \<Rightarrow> nat \<Rightarrow> 'a list \<Rightarrow> 'a list option" where
  "product_contribution reaction rate p mass_sources =
     (let p_id = product_id reaction p;
          p_stoich = product_stoichiometric_coefficient reaction p
      in if p_id < length mass_sources
         then Some (mass_sources[p_id := mass_sources ! p_id + of_nat p_stoich * rate])
         else None)"

text \<open>The body of the loop over the reactions.\<close>

definition reaction_contributions ::
  "'a::linordered_idom Kinetics \<Rightarrow> nat \<Rightarrow> 'a list \<Rightarrow> 'a list option" where
  "reaction_contributions this rxn mass_sources =
     (if rxn < length (net_reaction_rates this) then
        (let reaction = ReactionSet_reaction (reaction_set this) rxn;
             rate = net_reaction_rates this ! rxn
         in case for_loop 0 (n_reactants reaction) (reactant_contribution reaction rate)
                   mass_sources of
              None \<Rightarrow> None
            | Some mass_sources' \<Rightarrow>
                for_loop 0 (n_products reaction) (product_contribution reaction rate)
                  mass_sources')
      else None)"

text \<open>\<^verbatim>\<open>mass_sources[s] *= _chem_mixture.M(s);\<close>\<close>

definition scale_by_molar_mass ::
  "'a::linordered_idom Kinetics \<Rightarrow> nat \<Rightarrow> 'a list \<Rightarrow> 'a list option" where
  "scale_by_molar_mass this s mass_sources =
     (if s < length mass_sources
      then Some (mass_sources[s := mass_sources ! s * M (chemical_mixture (reaction_set this)) s])
      else None)"

subsection \<open>\<^verbatim>\<open>Kinetics::compute_mass_sources\<close>\<close>

text \<open>\<^verbatim>\<open>std::fill( mass_sources.begin(), mass_sources.end(), 0.0 );\<close>\<close>

definition fill_zero :: "'a::linordered_idom stmt" where
  "fill_zero st = Returned (fst st) (map (\<lambda>x. 0) (snd st))"

text \<open>The call of the aggregator on the work array of the instance.\<close>

definition call_compute_reaction_rates ::
  "'a \<Rightarrow> 'a \<Rightarrow> 'a \<Rightarrow> 'a list \<Rightarrow> 'a list \<Rightarrow> 'a list \<Rightarrow> 'a::linordered_idom stmt" where
  "call_compute_reaction_rates T rho R_mix mass_fractions molar_densities h_RT_minus_s_R st =
     Returned
       ((fst st)\<lparr> net_reaction_rates :=
           compute_reaction_rates (reaction_set (fst st)) T rho R_mix mass_fractions
             molar_densities h_RT_minus_s_R (net_reaction_rates (fst st)) \<rparr>)
       (snd st)"

text \<open>A loop over \<open>mass_sources\<close> as a statement.\<close>

definition loop_stmt ::
  "('a Kinetics \<Rightarrow> nat) \<Rightarrow> ('a Kinetics \<Rightarrow> nat \<Rightarrow> 'a list \<Rightarrow> 'a list option) \<Rightarrow> 'a stmt" where
  "loop_stmt bound body st =
     (case for_loop 0 (bound (fst st)) (body (fst st)) (snd st) of
        None \<Rightarrow> OutOfRange
      | Some mass_sources' \<Rightarrow> Returned (fst st) mass_sources')"

definition compute_mass_sources ::
  "'a::linordered_idom Kinetics \<Rightarrow> 'a \<Rightarrow> 'a \<Rightarrow> 'a \<Rightarrow> 'a list \<Rightarrow> 'a list \<Rightarrow> 'a list \<Rightarrow> 'a list
     \<Rightarrow> 'a outcome" where
  "compute_mass_sources this T rho R_mix mass_fractions molar_densities h_RT_minus_s_R
       mass_sources =
     exec
       [ antioch_assert_greater T 0,
         antioch_assert_greater rho 0,
         antioch_assert_greater R_mix 0,
         (\<lambda>st. antioch_assert_equal_to (length mass_fractions) (n_species (fst st)) st),
         (\<lambda>st. antioch_assert_equal_to (length molar_densities) (n_species (fst st)) st),
         (\<lambda>st. antioch_assert_equal_to (length h_RT_minus_s_R) (n_species (fst st)) st),
         (\<lambda>st. antioch_assert_equal_to (length (snd st)) (n_species (fst st)) st),
         (\<lambda>st. antioch_assert_equal_to (length (net_reaction_rates (fst st)))
                  (n_reactions (fst st)) st),
         fill_zero,
         call_compute_reaction_rates T rho R_mix mass_fractions molar_densities h_RT_minus_s_R,
         loop_stmt n_reactions reaction_contributions,
         loop_stmt n_species scale_by_molar_mass ]
       (this, mass_sources)"

text \<open>
  The part of the call after the assertions, the reset of the output and the call of the
  aggregator: the loop over the reactions followed by the loop over the species.
\<close>

definition accumulate_and_scale :: "'a::linordered_idom stmt" where
  "accumulate_and_scale =
     exec [loop_stmt n_reactions reaction_contributions, loop_stmt n_species scale_by_molar_mass]"

section \<open>The vocabulary of the specification\<close>

text \<open>
  The preconditions of a call, as the specification lists them: positive temperature,
  density and mixture gas constant, every per-species vector of length \<open>n_species\<close>,
  and the work array of length \<open>n_reactions\<close>.
\<close>

definition preconditions ::
  "'a::linordered_idom Kinetics \<Rightarrow> 'a \<Rightarrow> 'a \<Rightarrow> 'a \<Rightarrow> 'a list \<Rightarrow> 'a list \<Rightarrow> 'a list \<Rightarrow> 'a list
     \<Rightarrow> bool" where
  "preconditions this T rho R_mix mass_fractions molar_densities h_RT_minus_s_R mass_sources =
     (T > 0 \<and> rho > 0 \<and> R_mix > 0 \<and>
      length mass_fractions = n_species this \<and>
      length molar_densities = n_species this \<and>
      length h_RT_minus_s_R = n_species this \<and>
      length mass_sources = n_species this \<and>
      length (net_reaction_rates this) = n_reactions this)"

text \<open>
  The data model identifies a species by a dense index below \<open>n_species\<close>: every
  reactant and product entry of every reaction refers to a species of the mixture.
\<close>

definition entries_in_range :: "nat \<Rightarrow> Reaction \<Rightarrow> bool" where
  "entries_in_range n reaction =
     (list_all (\<lambda>e. fst e < n) (reactants reaction) \<and>
      list_all (\<lambda>e. fst e < n) (products reaction))"

definition species_ids_in_range :: "'a ReactionSet \<Rightarrow> bool" where
  "species_ids_in_range rs =
     list_all (entries_in_range (ChemicalMixture_n_species (chemical_mixture rs))) (reactions rs)"

text \<open>
  The sum of the stoichiometric coefficients of species \<open>s\<close> in a list of entries (a
  species may occur several times, or not at all), the net coefficient of \<open>s\<close> in a
  reaction (products minus reactants, in the numeric type), and the net molar rate of
  \<open>s\<close> over all reactions for a vector of net reaction rates.
\<close>

definition stoich_sum :: "nat \<Rightarrow> (nat \<times> nat) list \<Rightarrow> nat" where
  "stoich_sum s entries = sum_list (map snd (filter (\<lambda>e. fst e = s) entries))"

definition net_stoich :: "Reaction \<Rightarrow> nat \<Rightarrow> 'a::linordered_idom" where
  "net_stoich reaction s =
     of_nat (stoich_sum s (products reaction)) - of_nat (stoich_sum s (reactants reaction))"

definition net_molar_rate :: "Reaction list \<Rightarrow> 'a::linordered_idom list \<Rightarrow> nat \<Rightarrow> 'a" where
  "net_molar_rate rxns rates s =
     sum_list (map (\<lambda>r. rates ! r * net_stoich (rxns ! r) s) [0..<length rxns])"

text \<open>
  The mass that one unit of progress of a reaction consumes and the mass it produces: the
  sums over the reactant entries and over the product entries of the coefficient times
  the molar mass of the species. A reaction conserves mass when the two are equal.
\<close>

definition reactant_mass :: "'a::linordered_idom ChemicalMixture \<Rightarrow> Reaction \<Rightarrow> 'a" where
  "reactant_mass mixture reaction =
     (\<Sum>e\<leftarrow>reactants reaction. of_nat (snd e) * M mixture (fst e))"

definition product_mass :: "'a::linordered_idom ChemicalMixture \<Rightarrow> Reaction \<Rightarrow> 'a" where
  "product_mass mixture reaction =
     (\<Sum>e\<leftarrow>products reaction. of_nat (snd e) * M mixture (fst e))"

definition conserves_mass :: "'a::linordered_idom ChemicalMixture \<Rightarrow> Reaction \<Rightarrow> bool" where
  "conserves_mass mixture reaction = (reactant_mass mixture reaction = product_mass mixture reaction)"

text \<open>The same reaction set with every rate law negated: all reactions run in reverse.\<close>

definition reverse_rates :: "'a::linordered_idom ReactionSet \<Rightarrow> 'a ReactionSet" where
  "reverse_rates rs =
     rs\<lparr> rate_law := \<lambda>T rho R_mix mass_fractions molar_densities h_RT_minus_s_R rxn.
                        - rate_law rs T rho R_mix mass_fractions molar_densities
                            h_RT_minus_s_R rxn \<rparr>"

text \<open>
  A program constructs an instance for a reaction set and then calls it any number of
  times. A call is the tuple of its arguments; after a call that returns, or that stops
  at an assertion, the instance is as the call left it, and the next call starts from
  there. There is nothing to go on with after undefined behaviour.
\<close>

type_synonym 'a call = "'a \<times> 'a \<times> 'a \<times> 'a list \<times> 'a list \<times> 'a list \<times> 'a list"

fun after_calls :: "'a::linordered_idom Kinetics \<Rightarrow> 'a call list \<Rightarrow> 'a Kinetics option" where
  "after_calls this [] = Some this"
| "after_calls this
     ((T, rho, R_mix, mass_fractions, molar_densities, h_RT_minus_s_R, mass_sources) # cs) =
     (case compute_mass_sources this T rho R_mix mass_fractions molar_densities h_RT_minus_s_R
             mass_sources of
        Returned this' mass_sources' \<Rightarrow> after_calls this' cs
      | AssertionFailed this' mass_sources' \<Rightarrow> after_calls this' cs
      | OutOfRange \<Rightarrow> None)"

section \<open>The scenarios of the specification\<close>

text \<open>
  Two species A (index 0, molar mass 2) and B (index 1, molar mass 4), the single
  reaction A \<open>\<rightarrow>\<close> B with coefficients 1 and 1, and an aggregator that returns the net
  rate 3.
\<close>

definition A_to_B :: "real ReactionSet" where
  "A_to_B =
     \<lparr> chemical_mixture = \<lparr> molar_masses = [2, 4] \<rparr>,
       reactions = [\<lparr> reactants = [(0, 1)], products = [(1, 1)] \<rparr>],
       rate_law = (\<lambda>T rho R_mix mass_fractions molar_densities h_RT_minus_s_R rxn. 3) \<rparr>"

text \<open>
  The reaction 2A \<open>\<rightarrow>\<close> A + B, where A is a reactant with coefficient 2 and a product
  with coefficient 1, both molar masses 1, and an aggregator that returns the net rate 1.
\<close>

definition self_pairing :: "real ReactionSet" where
  "self_pairing =
     \<lparr> chemical_mixture = \<lparr> molar_masses = [1, 1] \<rparr>,
       reactions = [\<lparr> reactants = [(0, 2)], products = [(0, 1), (1, 1)] \<rparr>],
       rate_law = (\<lambda>T rho R_mix mass_fractions molar_densities h_RT_minus_s_R rxn. 1) \<rparr>"

text \<open>
  Hydrogen (index 0, molar mass 2), oxygen (index 1, molar mass 32) and water (index 2,
  molar mass 18) with the reaction 2 H2 + O2 \<open>\<rightarrow>\<close> 2 H2O, which conserves mass, and a
  rate law that depends on the thermodynamic state.
\<close>

definition water_formation :: "real ReactionSet" where
  "water_formation =
     \<lparr> chemical_mixture = \<lparr> molar_masses = [2, 32, 18] \<rparr>,
       reactions = [\<lparr> reactants = [(0, 2), (1, 1)], products = [(2, 2)] \<rparr>],
       rate_law = (\<lambda>T rho R_mix mass_fractions molar_densities h_RT_minus_s_R rxn.
                     rho * mass_fractions ! 0 - T * molar_densities ! 2) \<rparr>"

section \<open>The instantiation with \<^verbatim>\<open>double\<close>\<close>

text \<open>
  The usual \<^verbatim>\<open>NumericType\<close> is \<^verbatim>\<open>double\<close>: IEEE 754 binary64 with rounding to
  nearest, ties to even. A finite double is given by the rational number it denotes; the
  two zeros are not distinguished (the class adds, subtracts, multiplies and compares,
  and these do not tell them apart). Every operation rounds its exact result once; a
  multiplication is not fused with the addition that follows it. The arithmetic of a
  double is not that of a ring, so the class is written out once more below with the
  operations of \<^verbatim>\<open>double\<close> in place of the exact ones, statement by statement.
\<close>

datatype double = Finite rat | PlusInf | MinusInf | NaN

text \<open>The number of binary digits of a natural number.\<close>

function bit_length :: "nat \<Rightarrow> nat" where
  "bit_length n = (if n = 0 then 0 else Suc (bit_length (n div 2)))"
  by pat_completeness auto
termination
  by (relation "measure (\<lambda>n. n)") auto

declare bit_length.simps [simp del]

text \<open>
  For a positive rational \<open>x\<close>, the exponent \<open>e\<close> with \<open>2^e \<le> x < 2^(e+1)\<close>: from the
  digits of the integer part when \<open>x \<ge> 1\<close>, and from those of the reciprocal otherwise.
\<close>

definition floor_log2 :: "rat \<Rightarrow> int" where
  "floor_log2 x =
     (if 1 \<le> x then int (bit_length (nat \<lfloor>x\<rfloor>)) - 1
      else - int (bit_length (nat (\<lceil>1 / x\<rceil> - 1))))"

text \<open>Rounding to the nearest integer, a tie going to the even one.\<close>

definition round_half_even :: "rat \<Rightarrow> int" where
  "round_half_even x =
     (let f = \<lfloor>x\<rfloor>; d = x - of_int f
      in if d < 1 / 2 then f else if 1 / 2 < d then f + 1 else if even f then f else f + 1)"

text \<open>
  Rounding of a positive rational to 53 significant binary digits. The last digit kept
  has the weight \<open>2^q\<close>; below \<open>2^(-1022)\<close> the weight stays at \<open>2^(-1074)\<close> (the
  subnormal numbers).
\<close>

definition round_magnitude :: "rat \<Rightarrow> rat" where
  "round_magnitude x =
     (let q = max (floor_log2 x) (- 1022) - 52
      in of_int (round_half_even (x * 2 powi (- q))) * 2 powi q)"

text \<open>
  Rounding of a rational to a double: by magnitude, since rounding to nearest is
  symmetric, and to an infinity when the rounded magnitude reaches \<open>2^1024\<close>.
\<close>

definition round_double :: "rat \<Rightarrow> double" where
  "round_double x =
     (if x = 0 then Finite 0
      else let y = round_magnitude \<bar>x\<bar>
           in if 2 ^ 1024 \<le> y then (if 0 < x then PlusInf else MinusInf)
              else Finite (if 0 < x then y else - y))"

text \<open>Negation, addition, subtraction, multiplication and \<^verbatim>\<open>a > b\<close> on doubles.\<close>

definition double_neg :: "double \<Rightarrow> double" where
  "double_neg a =
     (case a of Finite x \<Rightarrow> Finite (- x) | PlusInf \<Rightarrow> MinusInf | MinusInf \<Rightarrow> PlusInf
      | NaN \<Rightarrow> NaN)"

fun double_add :: "double \<Rightarrow> double \<Rightarrow> double" where
  "double_add (Finite a) (Finite b) = round_double (a + b)"
| "double_add NaN b = NaN"
| "double_add a NaN = NaN"
| "double_add PlusInf MinusInf = NaN"
| "double_add MinusInf PlusInf = NaN"
| "double_add PlusInf b = PlusInf"
| "double_add a PlusInf = PlusInf"
| "double_add MinusInf b = MinusInf"
| "double_add a MinusInf = MinusInf"

definition double_sub :: "double \<Rightarrow> double \<Rightarrow> double" where
  "double_sub a b = double_add a (double_neg b)"

fun double_mul :: "double \<Rightarrow> double \<Rightarrow> double" where
  "double_mul (Finite a) (Finite b) = round_double (a * b)"
| "double_mul NaN b = NaN"
| "double_mul a NaN = NaN"
| "double_mul (Finite a) PlusInf = (if a = 0 then NaN else if 0 < a then PlusInf else MinusInf)"
| "double_mul (Finite a) MinusInf = (if a = 0 then NaN else if 0 < a then MinusInf else PlusInf)"
| "double_mul PlusInf (Finite b) = (if b = 0 then NaN else if 0 < b then PlusInf else MinusInf)"
| "double_mul MinusInf (Finite b) = (if b = 0 then NaN else if 0 < b then MinusInf else PlusInf)"
| "double_mul PlusInf PlusInf = PlusInf"
| "double_mul PlusInf MinusInf = MinusInf"
| "double_mul MinusInf PlusInf = MinusInf"
| "double_mul MinusInf MinusInf = PlusInf"

fun double_greater :: "double \<Rightarrow> double \<Rightarrow> bool" where
  "double_greater (Finite a) (Finite b) = (b < a)"
| "double_greater PlusInf (Finite b) = True"
| "double_greater PlusInf MinusInf = True"
| "double_greater (Finite a) MinusInf = True"
| "double_greater a b = False"

text \<open>\<^verbatim>\<open>static_cast<double>(n)\<close> for an \<^verbatim>\<open>unsigned int\<close> \<open>n\<close>.\<close>

definition double_of_unsigned :: "nat \<Rightarrow> double" where
  "double_of_unsigned n = round_double (of_nat n)"

text \<open>
  The statements of \<^verbatim>\<open>compute_mass_sources\<close> for \<^verbatim>\<open>Kinetics<double>\<close>, in the order
  of the source. The statements that do no arithmetic (the length assertions, the loops,
  the call of the aggregator) are the ones above.
\<close>

definition antioch_assert_greater_double :: "double \<Rightarrow> double \<Rightarrow> double stmt" where
  "antioch_assert_greater_double a b st =
     (if double_greater a b then Returned (fst st) (snd st)
      else AssertionFailed (fst st) (snd st))"

text \<open>\<^verbatim>\<open>mass_sources[r_id] -= (static_cast<NumericType>(r_stoich)*rate);\<close>\<close>

definition reactant_contribution_double ::
  "Reaction \<Rightarrow> double \<Rightarrow> nat \<Rightarrow> double list \<Rightarrow> double list option" where
  "reactant_contribution_double reaction rate r mass_sources =
     (let r_id = reactant_id reaction r;
          r_stoich = reactant_stoichiometric_coefficient reaction r
      in if r_id < length mass_sources
         then Some (mass_sources[r_id :=
                 double_sub (mass_sources ! r_id) (double_mul (double_of_unsigned r_stoich) rate)])
         else None)"

text \<open>\<^verbatim>\<open>mass_sources[p_id] += (static_cast<NumericType>(p_stoich)*rate);\<close>\<close>

definition product_contribution_double ::
  "Reaction \<Rightarrow> double \<Rightarrow> nat \<Rightarrow> double list \<Rightarrow> double list option" where
  "product_contribution_double reaction rate p mass_sources =
     (let p_id = product_id reaction p;
          p_stoich = product_stoichiometric_coefficient reaction p
      in if p_id < length mass_sources
         then Some (mass_sources[p_id :=
                 double_add (mass_sources ! p_id) (double_mul (double_of_unsigned p_stoich) rate)])
         else None)"

definition reaction_contributions_double ::
  "double Kinetics \<Rightarrow> nat \<Rightarrow> double list \<Rightarrow> double list option" where
  "reaction_contributions_double this rxn mass_sources =
     (if rxn < length (net_reaction_rates this) then
        (let reaction = ReactionSet_reaction (reaction_set this) rxn;
             rate = net_reaction_rates this ! rxn
         in case for_loop 0 (n_reactants reaction) (reactant_contribution_double reaction rate)
                   mass_sources of
              None \<Rightarrow> None
            | Some mass_sources' \<Rightarrow>
                for_loop 0 (n_products reaction) (product_contribution_double reaction rate)
                  mass_sources')
      else None)"

text \<open>\<^verbatim>\<open>mass_sources[s] *= _chem_mixture.M(s);\<close>\<close>

definition scale_by_molar_mass_double ::
  "double Kinetics \<Rightarrow> nat \<Rightarrow> double list \<Rightarrow> double list option" where
  "scale_by_molar_mass_double this s mass_sources =
     (if s < length mass_sources
      then Some (mass_sources[s :=
              double_mul (mass_sources ! s) (M (chemical_mixture (reaction_set this)) s)])
      else None)"

text \<open>\<^verbatim>\<open>std::fill( mass_sources.begin(), mass_sources.end(), 0.0 );\<close>\<close>

definition fill_zero_double :: "double stmt" where
  "fill_zero_double st = Returned (fst st) (map (\<lambda>x. Finite 0) (snd st))"

definition call_compute_reaction_rates_double ::
  "double \<Rightarrow> double \<Rightarrow> double \<Rightarrow> double list \<Rightarrow> double list \<Rightarrow> double list \<Rightarrow> double stmt" where
  "call_compute_reaction_rates_double T rho R_mix mass_fractions molar_densities h_RT_minus_s_R
       st =
     Returned
       ((fst st)\<lparr> net_reaction_rates :=
           compute_reaction_rates (reaction_set (fst st)) T rho R_mix mass_fractions
             molar_densities h_RT_minus_s_R (net_reaction_rates (fst st)) \<rparr>)
       (snd st)"

definition compute_mass_sources_double ::
  "double Kinetics \<Rightarrow> double \<Rightarrow> double \<Rightarrow> double \<Rightarrow> double list \<Rightarrow> double list \<Rightarrow> double list
     \<Rightarrow> double list \<Rightarrow> double outcome" where
  "compute_mass_sources_double this T rho R_mix mass_fractions molar_densities h_RT_minus_s_R
       mass_sources =
     exec
       [ antioch_assert_greater_double T (Finite 0),
         antioch_assert_greater_double rho (Finite 0),
         antioch_assert_greater_double R_mix (Finite 0),
         (\<lambda>st. antioch_assert_equal_to (length mass_fractions) (n_species (fst st)) st),
         (\<lambda>st. antioch_assert_equal_to (length molar_densities) (n_species (fst st)) st),
         (\<lambda>st. antioch_assert_equal_to (length h_RT_minus_s_R) (n_species (fst st)) st),
         (\<lambda>st. antioch_assert_equal_to (length (snd st)) (n_species (fst st)) st),
         (\<lambda>st. antioch_assert_equal_to (length (net_reaction_rates (fst st)))
                  (n_reactions (fst st)) st),
         fill_zero_double,
         call_compute_reaction_rates_double T rho R_mix mass_fractions molar_densities
           h_RT_minus_s_R,
         loop_stmt n_reactions reaction_contributions_double,
         loop_stmt n_species scale_by_molar_mass_double ]
       (this, mass_sources)"

definition preconditions_double ::
  "double Kinetics \<Rightarrow> double \<Rightarrow> double \<Rightarrow> double \<Rightarrow> double list \<Rightarrow> double list \<Rightarrow> double list
     \<Rightarrow> double list \<Rightarrow> bool" where
  "preconditions_double this T rho R_mix mass_fractions molar_densities h_RT_minus_s_R
       mass_sources =
     (double_greater T (Finite 0) \<and> double_greater rho (Finite 0) \<and>
      double_greater R_mix (Finite 0) \<and>
      length mass_fractions = n_species this \<and>
      length molar_densities = n_species this \<and>
      length h_RT_minus_s_R = n_species this \<and>
      length mass_sources = n_species this \<and>
      length (net_reaction_rates this) = n_reactions this)"

subsection \<open>Three instances of \<^verbatim>\<open>Kinetics<double>\<close>\<close>

text \<open>
  One species of molar mass 1 and the reaction A \<open>\<rightarrow>\<close> 3A, with the net rate the double
  nearest to 0.1, which is \<open>3602879701896397 / 2^55\<close>.
\<close>

definition tripling :: "double Kinetics" where
  "tripling =
     \<lparr> reaction_set =
         \<lparr> chemical_mixture = \<lparr> molar_masses = [Finite 1] \<rparr>,
           reactions = [\<lparr> reactants = [(0, 1)], products = [(0, 3)] \<rparr>],
           rate_law = (\<lambda>T rho R_mix mass_fractions molar_densities h_RT_minus_s_R rxn.
                         Finite (3602879701896397 / 36028797018963968)) \<rparr>,
       net_reaction_rates = [Finite 0] \<rparr>"

text \<open>
  One species of molar mass 1 that two reactions consume, with the net rates \<open>2^53\<close>
  and 1.
\<close>

definition two_sinks :: "double Kinetics" where
  "two_sinks =
     \<lparr> reaction_set =
         \<lparr> chemical_mixture = \<lparr> molar_masses = [Finite 1] \<rparr>,
           reactions = [\<lparr> reactants = [(0, 1)], products = [] \<rparr>,
                        \<lparr> reactants = [(0, 1)], products = [] \<rparr>],
           rate_law = (\<lambda>T rho R_mix mass_fractions molar_densities h_RT_minus_s_R rxn.
                         if rxn = 0 then Finite 9007199254740992 else Finite 1) \<rparr>,
       net_reaction_rates = [Finite 0, Finite 0] \<rparr>"

text \<open>
  Three species of molar mass 1 and the reactions A \<open>\<rightarrow>\<close> B, C \<open>\<rightarrow>\<close> B and
  B \<open>\<rightarrow>\<close> A, each of which conserves mass, with the net rates \<open>10^16\<close>, 1 and
  \<open>10^16\<close>.
\<close>

definition cycle :: "double Kinetics" where
  "cycle =
     \<lparr> reaction_set =
         \<lparr> chemical_mixture = \<lparr> molar_masses = [Finite 1, Finite 1, Finite 1] \<rparr>,
           reactions = [\<lparr> reactants = [(0, 1)], products = [(1, 1)] \<rparr>,
                        \<lparr> reactants = [(2, 1)], products = [(1, 1)] \<rparr>,
                        \<lparr> reactants = [(1, 1)], products = [(0, 1)] \<rparr>],
           rate_law = (\<lambda>T rho R_mix mass_fractions molar_densities h_RT_minus_s_R rxn.
                         if rxn = 1 then Finite 1 else Finite 10000000000000000) \<rparr>,
       net_reaction_rates = [Finite 0, Finite 0, Finite 0] \<rparr>"

section \<open>The loops in closed form\<close>

lemma stoich_sum_Nil [simp]: "stoich_sum s [] = 0"
  by (simp add: stoich_sum_def)

lemma stoich_sum_Cons [simp]:
  "stoich_sum s (e # es) = (if fst e = s then snd e else 0) + stoich_sum s es"
  by (simp add: stoich_sum_def)

lemma reactant_loop_from:
  fixes rate :: "'a::linordered_idom"
  assumes "list_all (\<lambda>e. fst e < length ms) (reactants reaction)"
  shows "for_loop k (n_reactants reaction) (reactant_contribution reaction rate) ms =
         Some (map (\<lambda>s. ms ! s - of_nat (stoich_sum s (drop k (reactants reaction))) * rate)
                   [0..<length ms])"
  using assms
proof (induction k "n_reactants reaction" "reactant_contribution reaction rate" ms
        rule: for_loop.induct)
  case (1 i ms)
  show ?case
  proof (cases "i < n_reactants reaction")
    case False
    then show ?thesis
      by (subst for_loop.simps) (simp add: n_reactants_def map_nth)
  next
    case True
    obtain sid st where e: "reactants reaction ! i = (sid, st)"
      by (cases "reactants reaction ! i")
    from True 1(2) have sid: "sid < length ms"
      using e by (auto simp: list_all_length n_reactants_def)
    let ?ms' = "ms[sid := ms ! sid - of_nat st * rate]"
    have body: "reactant_contribution reaction rate i ms = Some ?ms'"
      using sid e
      by (simp add: reactant_contribution_def reactant_id_def
            reactant_stoichiometric_coefficient_def)
    have ih: "for_loop (Suc i) (n_reactants reaction) (reactant_contribution reaction rate) ?ms' =
         Some (map (\<lambda>s. ?ms' ! s - of_nat (stoich_sum s (drop (Suc i) (reactants reaction))) * rate)
                   [0..<length ?ms'])"
      using 1(1)[OF True body] 1(2) by simp
    have dr: "drop i (reactants reaction) = (sid, st) # drop (Suc i) (reactants reaction)"
      using True e by (simp add: n_reactants_def flip: Cons_nth_drop_Suc)
    show ?thesis
      apply (subst for_loop.simps)
      apply (simp add: True body ih dr)
      apply (auto simp: nth_list_update algebra_simps)
      done
  qed
qed

lemma product_loop_from:
  fixes rate :: "'a::linordered_idom"
  assumes "list_all (\<lambda>e. fst e < length ms) (products reaction)"
  shows "for_loop k (n_products reaction) (product_contribution reaction rate) ms =
         Some (map (\<lambda>s. ms ! s + of_nat (stoich_sum s (drop k (products reaction))) * rate)
                   [0..<length ms])"
  using assms
proof (induction k "n_products reaction" "product_contribution reaction rate" ms
        rule: for_loop.induct)
  case (1 i ms)
  show ?case
  proof (cases "i < n_products reaction")
    case False
    then show ?thesis
      by (subst for_loop.simps) (simp add: n_products_def map_nth)
  next
    case True
    obtain sid st where e: "products reaction ! i = (sid, st)"
      by (cases "products reaction ! i")
    from True 1(2) have sid: "sid < length ms"
      using e by (auto simp: list_all_length n_products_def)
    let ?ms' = "ms[sid := ms ! sid + of_nat st * rate]"
    have body: "product_contribution reaction rate i ms = Some ?ms'"
      using sid e
      by (simp add: product_contribution_def product_id_def
            product_stoichiometric_coefficient_def)
    have ih: "for_loop (Suc i) (n_products reaction) (product_contribution reaction rate) ?ms' =
         Some (map (\<lambda>s. ?ms' ! s + of_nat (stoich_sum s (drop (Suc i) (products reaction))) * rate)
                   [0..<length ?ms'])"
      using 1(1)[OF True body] 1(2) by simp
    have dr: "drop i (products reaction) = (sid, st) # drop (Suc i) (products reaction)"
      using True e by (simp add: n_products_def flip: Cons_nth_drop_Suc)
    show ?thesis
      apply (subst for_loop.simps)
      apply (simp add: True body ih dr)
      apply (auto simp: nth_list_update algebra_simps)
      done
  qed
qed

lemma reaction_contributions_eq:
  fixes this :: "'a::linordered_idom Kinetics"
  assumes "rxn < length (net_reaction_rates this)"
    and "entries_in_range (length ms) (ReactionSet_reaction (reaction_set this) rxn)"
  shows "reaction_contributions this rxn ms =
         Some (map (\<lambda>s. ms ! s + net_reaction_rates this ! rxn *
                      net_stoich (ReactionSet_reaction (reaction_set this) rxn) s)
                   [0..<length ms])"
proof -
  let ?re = "ReactionSet_reaction (reaction_set this) rxn"
  let ?rate = "net_reaction_rates this ! rxn"
  let ?ms1 = "map (\<lambda>s. ms ! s - of_nat (stoich_sum s (reactants ?re)) * ?rate) [0..<length ms]"
  have r: "for_loop 0 (n_reactants ?re) (reactant_contribution ?re ?rate) ms = Some ?ms1"
    using assms(2) reactant_loop_from[of ms ?re 0 ?rate] by (simp add: entries_in_range_def)
  have p: "for_loop 0 (n_products ?re) (product_contribution ?re ?rate) ?ms1 =
      Some (map (\<lambda>s. ?ms1 ! s + of_nat (stoich_sum s (products ?re)) * ?rate) [0..<length ?ms1])"
    using assms(2) product_loop_from[of ?ms1 ?re 0 ?rate] by (simp add: entries_in_range_def)
  have m: "map (\<lambda>s. ?ms1 ! s + of_nat (stoich_sum s (products ?re)) * ?rate) [0..<length ?ms1] =
      map (\<lambda>s. ms ! s + ?rate * net_stoich ?re s) [0..<length ms]"
    by (simp add: net_stoich_def algebra_simps)
  have "reaction_contributions this rxn ms =
      Some (map (\<lambda>s. ?ms1 ! s + of_nat (stoich_sum s (products ?re)) * ?rate) [0..<length ?ms1])"
    unfolding reaction_contributions_def Let_def
    using assms(1) by (simp only: r p if_True option.case)
  then show ?thesis
    by (simp only: m)
qed

lemma reaction_loop_from:
  fixes this :: "'a::linordered_idom Kinetics"
  assumes "n_reactions this \<le> length (net_reaction_rates this)"
    and "list_all (entries_in_range (length ms)) (reactions (reaction_set this))"
  shows "for_loop k (n_reactions this) (reaction_contributions this) ms =
         Some (map (\<lambda>s. ms ! s +
                      sum_list (map (\<lambda>r. net_reaction_rates this ! r *
                                         net_stoich (reactions (reaction_set this) ! r) s)
                                    [k..<n_reactions this]))
                   [0..<length ms])"
  using assms
proof (induction k "n_reactions this" "reaction_contributions this" ms rule: for_loop.induct)
  case (1 i ms)
  show ?case
  proof (cases "i < n_reactions this")
    case False
    then show ?thesis
      by (subst for_loop.simps) (simp add: map_nth)
  next
    case True
    let ?re = "reactions (reaction_set this) ! i"
    let ?ms' = "map (\<lambda>s. ms ! s + net_reaction_rates this ! i * net_stoich ?re s) [0..<length ms]"
    have inr: "entries_in_range (length ms) (ReactionSet_reaction (reaction_set this) i)"
      using True 1(3)
      by (simp add: list_all_length n_reactions_def ReactionSet_n_reactions_def
            ReactionSet_reaction_def)
    have body: "reaction_contributions this i ms = Some ?ms'"
      using reaction_contributions_eq[of i this ms] True 1(2) inr
      by (simp add: ReactionSet_reaction_def)
    have ih: "for_loop (Suc i) (n_reactions this) (reaction_contributions this) ?ms' =
         Some (map (\<lambda>s. ?ms' ! s +
                      sum_list (map (\<lambda>r. net_reaction_rates this ! r *
                                         net_stoich (reactions (reaction_set this) ! r) s)
                                    [Suc i..<n_reactions this]))
                   [0..<length ?ms'])"
      using 1(1)[OF True body] 1(2,3) by simp
    show ?thesis
      apply (subst for_loop.simps)
      apply (simp only: True body ih if_True option.case)
      apply (simp add: upt_conv_Cons[OF True] algebra_simps)
      done
  qed
qed

lemma scale_loop_from:
  fixes this :: "'a::linordered_idom Kinetics"
  assumes "n \<le> length ms"
  shows "for_loop k n (scale_by_molar_mass this) ms =
         Some (map (\<lambda>s. if k \<le> s \<and> s < n
                         then ms ! s * M (chemical_mixture (reaction_set this)) s
                         else ms ! s)
                   [0..<length ms])"
  using assms
proof (induction k n "scale_by_molar_mass this" ms rule: for_loop.induct)
  case (1 i n ms)
  show ?case
  proof (cases "i < n")
    case False
    then have "map (\<lambda>s. if i \<le> s \<and> s < n
                         then ms ! s * M (chemical_mixture (reaction_set this)) s
                         else ms ! s) [0..<length ms] = map (\<lambda>s. ms ! s) [0..<length ms]"
      by (intro map_cong) auto
    with False show ?thesis
      by (subst for_loop.simps) (simp add: map_nth)
  next
    case True
    let ?ms' = "ms[i := ms ! i * M (chemical_mixture (reaction_set this)) i]"
    have body: "scale_by_molar_mass this i ms = Some ?ms'"
      using True 1(2) by (simp add: scale_by_molar_mass_def)
    have ih: "for_loop (Suc i) n (scale_by_molar_mass this) ?ms' =
         Some (map (\<lambda>s. if Suc i \<le> s \<and> s < n
                         then ?ms' ! s * M (chemical_mixture (reaction_set this)) s
                         else ?ms' ! s)
                   [0..<length ?ms'])"
      using 1(1)[OF True body] 1(2) by simp
    show ?thesis
      apply (subst for_loop.simps)
      apply (simp only: True body ih if_True option.case)
      using True apply (auto simp: nth_list_update not_less_eq_eq le_antisym)
      done
  qed
qed

lemma length_compute_reaction_rates:
  "length (compute_reaction_rates rs T rho R_mix mf md h buf) = length buf"
proof -
  have "length (fold (\<lambda>rxn b. b[rxn := f rxn]) is b) = length b" for f :: "nat \<Rightarrow> 'a" and "is" b
    by (induction "is" arbitrary: b) simp_all
  then show ?thesis
    by (simp add: compute_reaction_rates_def)
qed

lemma fold_update_upt:
  "n \<le> length b \<Longrightarrow>
   fold (\<lambda>rxn b. b[rxn := f rxn]) [0..<n] b = map f [0..<n] @ drop n b"
proof (induction n)
  case 0
  then show ?case by simp
next
  case (Suc n)
  then have "n < length (map f [0..<n] @ drop n b)" by simp
  moreover have "(map f [0..<n] @ drop n b)[n := f n] = map f [0..<n] @ (drop n b)[0 := f n]"
    by (simp add: list_update_append)
  moreover have "(drop n b)[0 := f n] = f n # drop (Suc n) b"
    using Suc.prems by (cases "drop n b") (auto simp: drop_Suc simp flip: drop_tl tl_drop)
  ultimately show ?case
    using Suc by simp
qed

lemma compute_reaction_rates_eq:
  "length buf = ReactionSet_n_reactions rs \<Longrightarrow>
   compute_reaction_rates rs T rho R_mix mf md h buf =
   map (rate_law rs T rho R_mix mf md h) [0..<ReactionSet_n_reactions rs]"
  by (simp add: compute_reaction_rates_def fold_update_upt)

lemma compute_mass_sources_unfold:
  "compute_mass_sources this T rho R_mix mf md h ms =
     (if preconditions this T rho R_mix mf md h ms
      then accumulate_and_scale
             (this\<lparr> net_reaction_rates :=
                 compute_reaction_rates (reaction_set this) T rho R_mix mf md h
                   (net_reaction_rates this) \<rparr>,
              replicate (length ms) 0)
      else AssertionFailed this ms)"
  by (simp add: compute_mass_sources_def preconditions_def accumulate_and_scale_def
        antioch_assert_greater_def antioch_assert_equal_to_def fill_zero_def
        call_compute_reaction_rates_def map_replicate_const)

lemma accumulate_and_scale_eq:
  fixes this :: "'a::linordered_idom Kinetics"
  assumes "length (net_reaction_rates this) = n_reactions this"
    and "length ms = n_species this"
    and "species_ids_in_range (reaction_set this)"
  shows "accumulate_and_scale (this, ms) =
     Returned this
       (map (\<lambda>s. (ms ! s + net_molar_rate (reactions (reaction_set this))
                              (net_reaction_rates this) s) *
                  M (chemical_mixture (reaction_set this)) s)
            [0..<n_species this])"
proof -
  let ?ms1 = "map (\<lambda>s. ms ! s + net_molar_rate (reactions (reaction_set this))
                              (net_reaction_rates this) s) [0..<length ms]"
  have inr: "list_all (entries_in_range (length ms)) (reactions (reaction_set this))"
    using assms(2,3) by (simp add: species_ids_in_range_def n_species_def)
  have l1: "for_loop 0 (n_reactions this) (reaction_contributions this) ms = Some ?ms1"
    using reaction_loop_from[of this ms 0] assms(1) inr
    by (simp add: net_molar_rate_def n_reactions_def ReactionSet_n_reactions_def)
  have l2: "for_loop 0 (n_species this) (scale_by_molar_mass this) ?ms1 =
      Some (map (\<lambda>s. if 0 \<le> s \<and> s < n_species this
                      then ?ms1 ! s * M (chemical_mixture (reaction_set this)) s
                      else ?ms1 ! s) [0..<length ?ms1])"
    using scale_loop_from[of "n_species this" ?ms1 0 this] assms(2) by simp
  have "accumulate_and_scale (this, ms) =
      Returned this (map (\<lambda>s. if 0 \<le> s \<and> s < n_species this
                      then ?ms1 ! s * M (chemical_mixture (reaction_set this)) s
                      else ?ms1 ! s) [0..<length ?ms1])"
    by (simp only: accumulate_and_scale_def exec.simps loop_stmt_def fst_conv snd_conv l1 l2
          option.case outcome.case)
  also have "map (\<lambda>s. if 0 \<le> s \<and> s < n_species this
                      then ?ms1 ! s * M (chemical_mixture (reaction_set this)) s
                      else ?ms1 ! s) [0..<length ?ms1] =
      map (\<lambda>s. (ms ! s + net_molar_rate (reactions (reaction_set this))
                              (net_reaction_rates this) s) *
                  M (chemical_mixture (reaction_set this)) s) [0..<n_species this]"
    using assms(2) by simp
  finally show ?thesis .
qed

lemma compute_mass_sources_closed_form:
  fixes this :: "'a::linordered_idom Kinetics"
  assumes "preconditions this T rho R_mix mf md h ms"
    and "species_ids_in_range (reaction_set this)"
  shows "compute_mass_sources this T rho R_mix mf md h ms =
     Returned
       (this\<lparr> net_reaction_rates :=
           compute_reaction_rates (reaction_set this) T rho R_mix mf md h
             (net_reaction_rates this) \<rparr>)
       (map (\<lambda>s. M (chemical_mixture (reaction_set this)) s *
                  net_molar_rate (reactions (reaction_set this))
                    (compute_reaction_rates (reaction_set this) T rho R_mix mf md h
                       (net_reaction_rates this)) s)
            [0..<n_species this])"
proof -
  let ?this' = "this\<lparr> net_reaction_rates :=
           compute_reaction_rates (reaction_set this) T rho R_mix mf md h
             (net_reaction_rates this) \<rparr>"
  have a: "length (net_reaction_rates ?this') = n_reactions ?this'"
    using assms(1) by (simp add: preconditions_def length_compute_reaction_rates n_reactions_def)
  have b: "length (replicate (length ms) (0::'a)) = n_species ?this'"
    using assms(1) by (simp add: preconditions_def n_species_def)
  have c: "species_ids_in_range (reaction_set ?this')"
    using assms(2) by simp
  have "compute_mass_sources this T rho R_mix mf md h ms =
      accumulate_and_scale (?this', replicate (length ms) 0)"
    using assms(1) by (simp only: compute_mass_sources_unfold if_True)
  also have "\<dots> = Returned ?this'
       (map (\<lambda>s. (replicate (length ms) 0 ! s + net_molar_rate (reactions (reaction_set ?this'))
                              (net_reaction_rates ?this') s) *
                  M (chemical_mixture (reaction_set ?this')) s)
            [0..<n_species ?this'])"
    by (rule accumulate_and_scale_eq[OF a b c])
  also have "map (\<lambda>s. (replicate (length ms) 0 ! s + net_molar_rate (reactions (reaction_set ?this'))
                              (net_reaction_rates ?this') s) *
                  M (chemical_mixture (reaction_set ?this')) s)
            [0..<n_species ?this'] =
     map (\<lambda>s. M (chemical_mixture (reaction_set this)) s *
                  net_molar_rate (reactions (reaction_set this))
                    (compute_reaction_rates (reaction_set this) T rho R_mix mf md h
                       (net_reaction_rates this)) s)
            [0..<n_species this]"
    using assms(1) by (simp add: preconditions_def n_species_def mult.commute)
  finally show ?thesis .
qed

section \<open>Lengths and outcomes\<close>

lemma for_loop_length:
  "for_loop i n body v = Some v' \<Longrightarrow>
   (\<And>i v v'. body i v = Some v' \<Longrightarrow> length v' = length v) \<Longrightarrow>
   length v' = length v"
proof (induction i n body v rule: for_loop.induct)
  case (1 i n body v)
  show ?case
  proof (cases "i < n")
    case False
    with 1(2) show ?thesis
      by (subst (asm) for_loop.simps) simp
  next
    case True
    with 1(2) obtain w where w: "body i v = Some w" and rest: "for_loop (Suc i) n body w = Some v'"
      by (subst (asm) for_loop.simps) (auto split: option.splits)
    have "length v' = length w"
      using 1(1)[OF True w rest] 1(3) by blast
    moreover have "length w = length v"
      using 1(3)[OF w] .
    ultimately show ?thesis
      by simp
  qed
qed

lemma reactant_contribution_length:
  "reactant_contribution re rate i w = Some w' \<Longrightarrow> length w' = length w"
  by (auto simp: reactant_contribution_def Let_def split: if_splits)

lemma product_contribution_length:
  "product_contribution re rate i w = Some w' \<Longrightarrow> length w' = length w"
  by (auto simp: product_contribution_def Let_def split: if_splits)

lemma reaction_contributions_length:
  assumes "reaction_contributions this rxn v = Some v'"
  shows "length v' = length v"
proof -
  let ?re = "ReactionSet_reaction (reaction_set this) rxn"
  let ?rate = "net_reaction_rates this ! rxn"
  from assms obtain w where
    w: "for_loop 0 (n_reactants ?re) (reactant_contribution ?re ?rate) v = Some w"
    and v': "for_loop 0 (n_products ?re) (product_contribution ?re ?rate) w = Some v'"
    by (auto simp: reaction_contributions_def Let_def split: if_splits option.splits)
  have "length w = length v"
    using for_loop_length[OF w reactant_contribution_length] .
  moreover have "length v' = length w"
    using for_loop_length[OF v' product_contribution_length] .
  ultimately show ?thesis
    by simp
qed

lemma scale_by_molar_mass_length:
  "scale_by_molar_mass this s v = Some v' \<Longrightarrow> length v' = length v"
  by (auto simp: scale_by_molar_mass_def split: if_splits)

lemma accumulate_and_scale_Returned:
  assumes "accumulate_and_scale (this, v) = Returned this' v'"
  shows "this' = this \<and> length v' = length v"
proof -
  from assms obtain w where
    w: "for_loop 0 (n_reactions this) (reaction_contributions this) v = Some w"
    and v': "for_loop 0 (n_species this) (scale_by_molar_mass this) w = Some v'"
    and this': "this' = this"
    by (auto simp: accumulate_and_scale_def loop_stmt_def split: option.splits)
  have "length w = length v"
    using for_loop_length[OF w reaction_contributions_length] .
  moreover have "length v' = length w"
    using for_loop_length[OF v' scale_by_molar_mass_length] .
  ultimately show ?thesis
    using this' by simp
qed

lemma accumulate_and_scale_not_AssertionFailed:
  "accumulate_and_scale st \<noteq> AssertionFailed this' v'"
  by (auto simp: accumulate_and_scale_def loop_stmt_def split: option.splits)

lemma compute_reaction_rates_idem:
  assumes "length buf = ReactionSet_n_reactions rs"
  shows "compute_reaction_rates rs T rho R_mix mf md h
           (compute_reaction_rates rs T rho R_mix mf md h buf) =
         compute_reaction_rates rs T rho R_mix mf md h buf"
  using assms
  by (simp add: compute_reaction_rates_eq length_compute_reaction_rates)

lemma compute_mass_sources_Returned:
  assumes "compute_mass_sources this T rho R_mix mf md h ms = Returned this' ms'"
  shows "this' = this\<lparr> net_reaction_rates :=
                     compute_reaction_rates (reaction_set this) T rho R_mix mf md h
                       (net_reaction_rates this) \<rparr> \<and>
         length ms' = length ms \<and> preconditions this T rho R_mix mf md h ms"
proof -
  have pre: "preconditions this T rho R_mix mf md h ms"
    using assms by (simp add: compute_mass_sources_unfold split: if_splits)
  with assms have "accumulate_and_scale
      (this\<lparr> net_reaction_rates :=
                compute_reaction_rates (reaction_set this) T rho R_mix mf md h
                  (net_reaction_rates this) \<rparr>, replicate (length ms) 0) = Returned this' ms'"
    by (simp add: compute_mass_sources_unfold)
  from accumulate_and_scale_Returned[OF this] pre show ?thesis
    by simp
qed

lemma compute_mass_sources_AssertionFailed:
  assumes "compute_mass_sources this T rho R_mix mf md h ms = AssertionFailed this' ms'"
  shows "this' = this \<and> ms' = ms \<and> \<not> preconditions this T rho R_mix mf md h ms"
  using assms
  by (simp add: compute_mass_sources_unfold accumulate_and_scale_not_AssertionFailed
        split: if_splits)

section \<open>Sums over species and reactions\<close>

lemma weighted_stoich_sum:
  fixes f :: "nat \<Rightarrow> 'a::linordered_idom"
  assumes "list_all (\<lambda>e. fst e < n) es"
  shows "(\<Sum>s\<leftarrow>[0..<n]. f s * of_nat (stoich_sum s es)) = (\<Sum>e\<leftarrow>es. of_nat (snd e) * f (fst e))"
  using assms
proof (induction es)
  case Nil
  then show ?case by simp
next
  case (Cons e es)
  have one: "(\<Sum>s\<leftarrow>[0..<n]. f s * of_nat (if fst e = s then snd e else 0)) =
      of_nat (snd e) * f (fst e)"
  proof -
    have "(\<Sum>s\<leftarrow>[0..<n]. f s * of_nat (if fst e = s then snd e else 0)) =
        (\<Sum>s\<in>{0..<n}. if s = fst e then f s * of_nat (snd e) else 0)"
      by (simp only: interv_sum_list_conv_sum_set_nat set_upt) (rule sum.cong, auto)
    also have "\<dots> = f (fst e) * of_nat (snd e)"
      using Cons.prems by (subst sum.delta) simp_all
    finally show ?thesis by (simp add: mult.commute)
  qed
  have "(\<Sum>s\<leftarrow>[0..<n]. f s * of_nat (stoich_sum s (e # es))) =
      (\<Sum>s\<leftarrow>[0..<n]. f s * of_nat (if fst e = s then snd e else 0) +
                      f s * of_nat (stoich_sum s es))"
    by (simp add: algebra_simps)
  also have "\<dots> = (\<Sum>s\<leftarrow>[0..<n]. f s * of_nat (if fst e = s then snd e else 0)) +
      (\<Sum>s\<leftarrow>[0..<n]. f s * of_nat (stoich_sum s es))"
    by (rule sum_list_addf)
  finally show ?case
    using Cons by (simp add: one)
qed

lemma mass_weighted_net_stoich:
  fixes mixture :: "'a::linordered_idom ChemicalMixture"
  assumes "entries_in_range n reaction"
  shows "(\<Sum>s\<leftarrow>[0..<n]. M mixture s * net_stoich reaction s) =
         product_mass mixture reaction - reactant_mass mixture reaction"
proof -
  have "(\<Sum>s\<leftarrow>[0..<n]. M mixture s * net_stoich reaction s) =
      (\<Sum>s\<leftarrow>[0..<n]. M mixture s * of_nat (stoich_sum s (products reaction)) -
                      M mixture s * of_nat (stoich_sum s (reactants reaction)))"
    by (simp add: net_stoich_def algebra_simps)
  also have "\<dots> = (\<Sum>s\<leftarrow>[0..<n]. M mixture s * of_nat (stoich_sum s (products reaction))) -
      (\<Sum>s\<leftarrow>[0..<n]. M mixture s * of_nat (stoich_sum s (reactants reaction)))"
    by (rule sum_list_subtractf)
  finally show ?thesis
    using assms
    by (simp add: weighted_stoich_sum entries_in_range_def product_mass_def reactant_mass_def)
qed

lemma total_mass_source:
  fixes mixture :: "'a::linordered_idom ChemicalMixture"
  assumes "list_all (entries_in_range n) rxns"
  shows "(\<Sum>s\<leftarrow>[0..<n]. M mixture s * net_molar_rate rxns rates s) =
         (\<Sum>r\<leftarrow>[0..<length rxns].
            rates ! r * (product_mass mixture (rxns ! r) - reactant_mass mixture (rxns ! r)))"
proof -
  have "(\<Sum>s\<leftarrow>[0..<n]. M mixture s * net_molar_rate rxns rates s) =
      (\<Sum>s\<in>{0..<n}. \<Sum>r\<in>{0..<length rxns}.
          rates ! r * (M mixture s * net_stoich (rxns ! r) s))"
    by (simp add: net_molar_rate_def interv_sum_list_conv_sum_set_nat sum_distrib_left
          mult.left_commute)
  also have "\<dots> = (\<Sum>r\<in>{0..<length rxns}. \<Sum>s\<in>{0..<n}.
          rates ! r * (M mixture s * net_stoich (rxns ! r) s))"
    by (rule sum.swap)
  also have "\<dots> = (\<Sum>r\<in>{0..<length rxns}.
          rates ! r * (\<Sum>s\<leftarrow>[0..<n]. M mixture s * net_stoich (rxns ! r) s))"
    by (simp add: interv_sum_list_conv_sum_set_nat sum_distrib_left)
  also have "\<dots> = (\<Sum>r\<in>{0..<length rxns}.
          rates ! r * (product_mass mixture (rxns ! r) - reactant_mass mixture (rxns ! r)))"
    using assms by (intro sum.cong refl) (simp add: mass_weighted_net_stoich list_all_length)
  finally show ?thesis
    by (simp add: interv_sum_list_conv_sum_set_nat)
qed

lemma net_molar_rate_uminus:
  fixes rates :: "'a::linordered_idom list"
  assumes "length rxns \<le> length rates"
  shows "net_molar_rate rxns (map uminus rates) s = - net_molar_rate rxns rates s"
proof -
  have "map (\<lambda>r. map uminus rates ! r * net_stoich (rxns ! r) s) [0..<length rxns] =
      map (\<lambda>r. - (rates ! r * net_stoich (rxns ! r) s)) [0..<length rxns]"
    using assms by (intro map_cong refl) simp
  then have "net_molar_rate rxns (map uminus rates) s =
      sum_list (map (\<lambda>r. - (rates ! r * net_stoich (rxns ! r) s)) [0..<length rxns])"
    by (simp only: net_molar_rate_def)
  also have "\<dots> = - net_molar_rate rxns rates s"
    by (simp add: net_molar_rate_def uminus_sum_list_map o_def)
  finally show ?thesis .
qed

section \<open>Evaluation of the scenarios\<close>

lemmas scenario_simps =
  A_to_B_def self_pairing_def Kinetics_ctor_def preconditions_def species_ids_in_range_def
  entries_in_range_def n_species_def n_reactions_def ChemicalMixture_n_species_def
  ReactionSet_n_reactions_def ReactionSet_reaction_def M_def compute_reaction_rates_def
  stoich_sum_def

lemmas water_simps =
  water_formation_def Kinetics_ctor_def preconditions_def species_ids_in_range_def
  entries_in_range_def n_species_def n_reactions_def ChemicalMixture_n_species_def
  ReactionSet_n_reactions_def ReactionSet_reaction_def M_def compute_reaction_rates_def
  stoich_sum_def

lemmas eval_simps =
  compute_mass_sources_def antioch_assert_greater_def antioch_assert_equal_to_def
  fill_zero_def call_compute_reaction_rates_def loop_stmt_def for_loop.simps
  reaction_contributions_def reactant_contribution_def product_contribution_def
  scale_by_molar_mass_def n_reactants_def n_products_def reactant_id_def product_id_def
  reactant_stoichiometric_coefficient_def product_stoichiometric_coefficient_def
  Kinetics_ctor_def n_species_def n_reactions_def ChemicalMixture_n_species_def
  ReactionSet_n_reactions_def ReactionSet_reaction_def M_def compute_reaction_rates_def

lemma in_range_A_to_B:
  fixes this :: "'a::linordered_idom Kinetics"
  assumes "molar_masses (chemical_mixture (reaction_set this)) = [2, 4]"
    and "reactions (reaction_set this) = [\<lparr> reactants = [(0, 1)], products = [(1, 1)] \<rparr>]"
  shows "species_ids_in_range (reaction_set this)"
  using assms
  by (simp add: species_ids_in_range_def entries_in_range_def ChemicalMixture_n_species_def)

lemma in_range_self_pairing:
  fixes this :: "'a::linordered_idom Kinetics"
  assumes "molar_masses (chemical_mixture (reaction_set this)) = [1, 1]"
    and "reactions (reaction_set this) =
           [\<lparr> reactants = [(0, 2)], products = [(0, 1), (1, 1)] \<rparr>]"
  shows "species_ids_in_range (reaction_set this)"
  using assms
  by (simp add: species_ids_in_range_def entries_in_range_def ChemicalMixture_n_species_def)

section \<open>Rounding\<close>

lemma floor_rat_numeral [simp]:
  "\<lfloor>numeral a / numeral b :: rat\<rfloor> = numeral a div numeral b"
  using floor_divide_of_int_eq[of "numeral a" "numeral b", where ?'a = rat] by simp

lemma ceiling_rat_numeral [simp]:
  "\<lceil>numeral a / numeral b :: rat\<rceil> = - (- numeral a div numeral b)"
  using floor_divide_of_int_eq[of "- numeral a" "numeral b", where ?'a = rat]
  by (simp add: ceiling_def)

lemma floor_rat_one_numeral [simp]:
  "\<lfloor>1 / numeral b :: rat\<rfloor> = 1 div numeral b"
  using floor_divide_of_int_eq[of 1 "numeral b", where ?'a = rat] by simp

lemma ceiling_rat_one_numeral [simp]:
  "\<lceil>1 / numeral b :: rat\<rceil> = - (- 1 div numeral b)"
  using floor_divide_of_int_eq[of "- 1" "numeral b", where ?'a = rat]
  by (simp add: ceiling_def)

lemma round_half_even_of_int [simp]: "round_half_even (of_int k) = k"
  by (simp add: round_half_even_def)

lemma round_half_even_numeral [simp]: "round_half_even (numeral k) = numeral k"
  using round_half_even_of_int[of "numeral k"] by simp

lemma bit_length_bounds:
  "0 < n \<Longrightarrow> 2 ^ (bit_length n - 1) \<le> n \<and> n < 2 ^ bit_length n"
proof (induction n rule: bit_length.induct)
  case (1 n)
  show ?case
  proof (cases "n div 2 = 0")
    case True
    with 1(2) have "n = 1"
      by (simp add: div_eq_0_iff)
    then show ?thesis
      by (simp add: bit_length.simps)
  next
    case False
    then have pos: "0 < n div 2"
      by simp
    from 1(1)[OF _ pos] 1(2)
    have ih: "2 ^ (bit_length (n div 2) - 1) \<le> n div 2" "n div 2 < 2 ^ bit_length (n div 2)"
      by simp_all
    have bl: "bit_length n = Suc (bit_length (n div 2))"
      using 1(2) by (subst bit_length.simps) simp
    have nz: "bit_length (n div 2) \<noteq> 0"
      using pos by (subst bit_length.simps) simp
    then obtain k where k: "bit_length (n div 2) = Suc k"
      by (cases "bit_length (n div 2)") simp_all
    show ?thesis
      using ih by (simp add: bl k) arith
  qed
qed

text \<open>
  The pieces of the rounding do what they are meant to: the exponent brackets its
  argument, the integer rounding is off by at most one half, and so the rounded magnitude
  is off by at most half a unit in the last place.
\<close>

lemma floor_log2_bounds:
  assumes "0 < x"
  shows "2 powi floor_log2 x \<le> x \<and> x < 2 powi (floor_log2 x + 1)"
proof (cases "1 \<le> x")
  case True
  define n where "n = nat \<lfloor>x\<rfloor>"
  have n1: "0 < n"
    using True by (simp add: n_def)
  have "0 \<le> \<lfloor>x\<rfloor>"
    using True by simp
  then have "(of_nat n :: rat) = of_int \<lfloor>x\<rfloor>"
    by (simp add: n_def)
  then have nx: "of_nat n \<le> x" and xn: "x < of_nat n + 1"
    using floor_correct[of x] by simp_all
  define b where "b = bit_length n"
  from bit_length_bounds[OF n1] have lo: "2 ^ (b - 1) \<le> n" and hi: "n < 2 ^ b"
    by (simp_all add: b_def)
  have b1: "1 \<le> b"
    using hi n1 by (cases b) simp_all
  have fl: "floor_log2 x = int (b - 1)"
    using True b1 by (simp add: floor_log2_def b_def n_def)
  have "(of_nat (2 ^ (b - 1)) :: rat) \<le> of_nat n"
    using lo by (simp only: of_nat_le_iff)
  then have "(2::rat) ^ (b - 1) \<le> of_nat n"
    by simp
  with nx have l: "(2::rat) ^ (b - 1) \<le> x"
    by linarith
  have "n + 1 \<le> 2 ^ b"
    using hi by simp
  then have "(of_nat (n + 1) :: rat) \<le> of_nat (2 ^ b)"
    by (simp only: of_nat_le_iff)
  then have "(of_nat n :: rat) + 1 \<le> 2 ^ b"
    by simp
  with xn have u: "x < 2 ^ b"
    by linarith
  have e: "int (b - 1) + 1 = int b"
    using b1 by simp
  have p1: "(2::rat) powi floor_log2 x = 2 ^ (b - 1)"
    by (simp only: fl power_int_of_nat)
  have p2: "(2::rat) powi (floor_log2 x + 1) = 2 ^ b"
    by (simp only: fl e power_int_of_nat)
  show ?thesis
    using l u by (simp only: p1 p2 simp_thms)
next
  case False
  define c where "c = \<lceil>1 / x\<rceil>"
  have y1: "1 < 1 / x"
    using False assms by simp
  then have c2: "2 \<le> c"
    by (simp add: c_def le_ceiling_iff)
  have yc: "1 / x \<le> of_int c" and cy: "of_int c - 1 < 1 / x"
    by (simp_all add: c_def) linarith
  define n where "n = nat (c - 1)"
  have n1: "0 < n"
    using c2 by (simp add: n_def)
  have nc: "int n = c - 1"
    using c2 by (simp add: n_def)
  define k where "k = bit_length n"
  from bit_length_bounds[OF n1] have lo: "2 ^ (k - 1) \<le> n" and hi: "n < 2 ^ k"
    by (simp_all add: k_def)
  have k1: "1 \<le> k"
    using hi n1 by (cases k) simp_all
  have fl: "floor_log2 x = - int k"
    using False by (simp add: floor_log2_def k_def n_def c_def)
  have "n + 1 \<le> 2 ^ k"
    using hi by simp
  then have "(of_nat (n + 1) :: rat) \<le> of_nat (2 ^ k)"
    by (simp only: of_nat_le_iff)
  then have "(of_nat n :: rat) + 1 \<le> 2 ^ k"
    by simp
  moreover have "(of_int c :: rat) = of_int (int n + 1)"
    using nc by simp
  then have "(of_int c :: rat) = of_nat n + 1"
    by simp
  ultimately have "1 / x \<le> 2 ^ k"
    using yc by linarith
  then have l: "1 / 2 ^ k \<le> x"
    using assms by (simp add: field_simps)
  have "(of_nat (2 ^ (k - 1)) :: rat) \<le> of_nat n"
    using lo by (simp only: of_nat_le_iff)
  then have "(2::rat) ^ (k - 1) \<le> of_nat n"
    by simp
  moreover have "(of_int (int n) :: rat) = of_int (c - 1)"
    using nc by simp
  then have "(of_nat n :: rat) = of_int c - 1"
    by simp
  ultimately have "(2::rat) ^ (k - 1) < 1 / x"
    using cy by linarith
  then have u: "x < 1 / 2 ^ (k - 1)"
    using assms by (simp add: field_simps)
  have e: "- int k + 1 = - int (k - 1)"
    using k1 by simp
  have p1: "(2::rat) powi floor_log2 x = 1 / 2 ^ k"
    by (simp only: fl power_int_minus power_int_of_nat inverse_eq_divide)
  have p2: "(2::rat) powi (floor_log2 x + 1) = 1 / 2 ^ (k - 1)"
    by (simp only: fl e power_int_minus power_int_of_nat inverse_eq_divide)
  show ?thesis
    using l u by (simp only: p1 p2 simp_thms)
qed

lemma round_half_even_error: "\<bar>of_int (round_half_even x) - x\<bar> \<le> 1 / 2"
proof -
  have "of_int \<lfloor>x\<rfloor> \<le> x" "x < of_int \<lfloor>x\<rfloor> + 1"
    using floor_correct[of x] by simp_all
  then show ?thesis
    by (simp add: round_half_even_def Let_def abs_le_iff)
qed

lemma round_magnitude_error:
  "\<bar>round_magnitude x - x\<bar> \<le> 2 powi (max (floor_log2 x) (- 1022) - 52) / 2"
proof -
  define q where "q = max (floor_log2 x) (- 1022) - 52"
  define m where "m = round_half_even (x * 2 powi (- q))"
  have pos: "(0::rat) < 2 powi q"
    by simp
  have inv: "(2::rat) powi (- q) * 2 powi q = 1"
    by (simp add: power_int_minus)
  have "round_magnitude x - x = (of_int m - x * 2 powi (- q)) * 2 powi q"
    using inv by (simp add: round_magnitude_def q_def m_def algebra_simps)
  then have "\<bar>round_magnitude x - x\<bar> = \<bar>of_int m - x * 2 powi (- q)\<bar> * 2 powi q"
    using pos by (simp add: abs_mult)
  also have "\<dots> \<le> 1 / 2 * 2 powi q"
    using round_half_even_error[of "x * 2 powi (- q)"] pos
    by (intro mult_right_mono) (simp_all add: m_def)
  finally show ?thesis
    by (simp add: q_def)
qed

text \<open>
  Every natural number up to \<open>2^53\<close> is a double, so the conversion of an
  \<^verbatim>\<open>unsigned int\<close> is exact.
\<close>

lemma round_double_of_nat:
  assumes "n \<le> 2 ^ 53"
  shows "round_double (of_nat n) = Finite (of_nat n)"
proof (cases "n = 0")
  case True
  then show ?thesis
    by (simp add: round_double_def)
next
  case False
  then have pos: "0 < n"
    by simp
  define b where "b = bit_length n"
  from bit_length_bounds[OF pos] have lo: "2 ^ (b - 1) \<le> n" and hi: "n < 2 ^ b"
    by (simp_all add: b_def)
  have b1: "1 \<le> b"
    using hi pos by (cases b) simp_all
  have "(2::nat) ^ (b - 1) \<le> 2 ^ 53"
    using lo assms by (rule le_trans)
  then have "b - 1 \<le> 53"
    by (simp only: power_increasing_iff[of "2::nat"] one_less_numeral_iff semiring_norm)
  then have b54: "b \<le> 54"
    by simp
  have fl: "floor_log2 (of_nat n) = int b - 1"
    using pos by (simp add: floor_log2_def b_def)
  have mag: "round_magnitude (of_nat n) = of_nat n"
  proof (cases "b = 54")
    case True
    with lo assms have n: "n = 2 ^ 53"
      by simp
    have "(of_nat n :: rat) * 2 powi (- 1) = of_int (2 ^ 52)"
      by (simp add: n)
    then have r: "round_half_even (of_nat n * 2 powi (- 1)) = 2 ^ 52"
      by (simp only: round_half_even_of_int)
    have "round_magnitude (of_nat n) =
        of_int (round_half_even (of_nat n * 2 powi (- 1))) * 2 powi 1"
      by (simp add: round_magnitude_def fl True)
    then show ?thesis
      by (simp add: r n)
  next
    case False
    with b54 have le: "b \<le> 53"
      by simp
    have q: "max (int b - 1) (- 1022) - 52 = - int (53 - b)"
      using b1 le by simp
    have "(of_nat n :: rat) * 2 powi int (53 - b) = of_int (int n * 2 ^ (53 - b))"
      by simp
    then have r: "round_half_even (of_nat n * 2 powi int (53 - b)) = int n * 2 ^ (53 - b)"
      by (simp only: round_half_even_of_int)
    have "round_magnitude (of_nat n) =
        of_int (round_half_even (of_nat n * 2 powi int (53 - b))) * 2 powi (- int (53 - b))"
      by (simp only: round_magnitude_def fl q Let_def minus_minus)
    also have "\<dots> = of_int (int n * 2 ^ (53 - b)) * 2 powi (- int (53 - b))"
      by (simp only: r)
    also have "\<dots> = of_nat n"
      by (simp add: power_int_minus)
    finally show ?thesis .
  qed
  have "(of_nat n :: rat) \<le> 2 ^ 53"
    using assms by (metis of_nat_le_iff of_nat_numeral of_nat_power)
  also have "\<dots> < 2 ^ 1024"
    by simp
  finally have "\<not> (2 ^ 1024 \<le> (of_nat n :: rat))"
    by simp
  then show ?thesis
    using pos by (simp add: round_double_def mag)
qed

lemma double_of_unsigned_exact:
  "n < 2 ^ 32 \<Longrightarrow> double_of_unsigned n = Finite (of_nat n)"
proof -
  assume "n < 2 ^ 32"
  also have "(2::nat) ^ 32 \<le> 2 ^ 53"
    by simp
  finally show ?thesis
    by (simp add: double_of_unsigned_def round_double_of_nat)
qed

lemmas round_simps = round_double_def round_magnitude_def floor_log2_def round_half_even_def
  bit_length.simps Let_def

lemmas double_eval =
  compute_mass_sources_double_def antioch_assert_greater_double_def antioch_assert_equal_to_def
  fill_zero_double_def call_compute_reaction_rates_double_def loop_stmt_def for_loop.simps
  reaction_contributions_double_def reactant_contribution_double_def
  product_contribution_double_def scale_by_molar_mass_double_def n_reactants_def
  n_products_def reactant_id_def product_id_def reactant_stoichiometric_coefficient_def
  product_stoichiometric_coefficient_def n_species_def n_reactions_def
  ChemicalMixture_n_species_def ReactionSet_n_reactions_def ReactionSet_reaction_def M_def
  compute_reaction_rates_def double_sub_def double_neg_def double_of_unsigned_def round_simps

text \<open>
  On the two-species scenario no operation rounds, and \<^verbatim>\<open>Kinetics<double>\<close> returns
  the same mass sources as the exact arithmetic.
\<close>

lemma A_to_B_double:
  "compute_mass_sources_double
     \<lparr> reaction_set =
         \<lparr> chemical_mixture = \<lparr> molar_masses = [Finite 2, Finite 4] \<rparr>,
           reactions = [\<lparr> reactants = [(0, 1)], products = [(1, 1)] \<rparr>],
           rate_law = (\<lambda>T rho R_mix mass_fractions molar_densities h_RT_minus_s_R rxn.
                         Finite 3) \<rparr>,
       net_reaction_rates = [Finite 0] \<rparr>
     (Finite 300) (Finite 1) (Finite 1) [Finite 1, Finite 0] [Finite 1, Finite 0]
     [Finite 0, Finite 0] [Finite 100, Finite (- 100)] =
   Returned
     \<lparr> reaction_set =
         \<lparr> chemical_mixture = \<lparr> molar_masses = [Finite 2, Finite 4] \<rparr>,
           reactions = [\<lparr> reactants = [(0, 1)], products = [(1, 1)] \<rparr>],
           rate_law = (\<lambda>T rho R_mix mass_fractions molar_densities h_RT_minus_s_R rxn.
                         Finite 3) \<rparr>,
       net_reaction_rates = [Finite 3] \<rparr>
     [Finite (- 6), Finite 12]"
  by (simp add: double_eval)

text \<open>
  The second of two subtractions rounds: \<open>-2^53 - 1\<close> is a tie and goes to \<open>-2^53\<close>,
  while the net molar rate of the species is \<open>-(2^53 + 1)\<close>.
\<close>

lemma two_sinks_rounding:
  "compute_mass_sources_double two_sinks (Finite 300) (Finite 1) (Finite 1) [Finite 1]
       [Finite 1] [Finite 0] [Finite 0] =
     Returned (two_sinks\<lparr> net_reaction_rates := [Finite 9007199254740992, Finite 1] \<rparr>)
       [Finite (- 9007199254740992)] \<and>
   1 * net_molar_rate (reactions (reaction_set two_sinks)) [9007199254740992, 1 :: rat] 0 =
     - 9007199254740993"
  by (simp add: double_eval two_sinks_def net_molar_rate_def net_stoich_def stoich_sum_def)

text \<open>
  On a reaction set that conserves mass the mass sources of \<^verbatim>\<open>Kinetics<double>\<close> need
  not sum to zero: \<open>10^16 + 1\<close> is a tie and goes to \<open>10^16\<close>, and the sum of the
  returned mass sources is \<open>-1\<close>.
\<close>

lemma cycle_rounding:
  "compute_mass_sources_double cycle (Finite 300) (Finite 1) (Finite 1)
       [Finite 1, Finite 0, Finite 0] [Finite 1, Finite 0, Finite 0]
       [Finite 0, Finite 0, Finite 0] [Finite 0, Finite 0, Finite 0] =
     Returned
       (cycle\<lparr> net_reaction_rates :=
          [Finite 10000000000000000, Finite 1, Finite 10000000000000000] \<rparr>)
       [Finite 0, Finite 0, Finite (- 1)]"
  by (simp add: double_eval cycle_def)

section \<open>The mass sources of a valid call\<close>

text \<open>
  C1, as amended. When the arithmetic of \<^verbatim>\<open>NumericType\<close> is exact (an ordered
  commutative ring, such as the rationals), a call that satisfies the preconditions, on
  a reaction set whose entries refer to species of the mixture, returns; the work array
  holds the rates written by the aggregator, and the mass source of every species \<open>s\<close>
  is its molar mass times the sum over the reactions \<open>r\<close> of the rate of \<open>r\<close> times the
  difference between the sum of the product coefficients and the sum of the reactant
  coefficients of \<open>s\<close> in \<open>r\<close>. The right-hand side does not mention the prior contents
  of \<open>mass_sources\<close>.
\<close>

theorem compute_mass_sources_formula:
  fixes this :: "'a::linordered_idom Kinetics"
  assumes "preconditions this T rho R_mix mass_fractions molar_densities h_RT_minus_s_R
             mass_sources"
    and "species_ids_in_range (reaction_set this)"
    and "rate = compute_reaction_rates (reaction_set this) T rho R_mix mass_fractions
                  molar_densities h_RT_minus_s_R (net_reaction_rates this)"
  shows "compute_mass_sources this T rho R_mix mass_fractions molar_densities h_RT_minus_s_R
           mass_sources =
         Returned (this\<lparr> net_reaction_rates := rate \<rparr>)
           (map (\<lambda>s. M (chemical_mixture (reaction_set this)) s *
                   (\<Sum>r\<leftarrow>[0..<n_reactions this].
                      rate ! r *
                      (of_nat (stoich_sum s (products (ReactionSet_reaction (reaction_set this) r))) -
                       of_nat (stoich_sum s (reactants (ReactionSet_reaction (reaction_set this) r))))))
                [0..<n_species this])"
  using compute_mass_sources_closed_form[OF assms(1,2)] assms(3)
  by (simp add: net_molar_rate_def net_stoich_def n_reactions_def ReactionSet_n_reactions_def
        ReactionSet_reaction_def)

theorem compute_mass_sources_formula_witness:
  "preconditions (Kinetics_ctor A_to_B) 300 1 1 [1/2, 1/2] [1, 1] [0, 0] [7, 9] \<and>
   species_ids_in_range (reaction_set (Kinetics_ctor A_to_B)) \<and>
   compute_mass_sources (Kinetics_ctor A_to_B) 300 1 1 [1/2, 1/2] [1, 1] [0, 0] [7, 9] =
     Returned ((Kinetics_ctor A_to_B)\<lparr> net_reaction_rates := [3] \<rparr>) [- 6, 12]"
  using compute_mass_sources_formula
          [of "Kinetics_ctor A_to_B" 300 1 1 "[1/2, 1/2]" "[1, 1]" "[0, 0]" "[7, 9]" "[3]"]
  by (simp add: scenario_simps)

text \<open>
  C1 as stated, for every call, fails for \<^verbatim>\<open>Kinetics<double>\<close>. The call on A
  \<open>\<rightarrow>\<close> 3A is valid, the rate is a double, and the call returns \<open>7205759403792795 /
  2^55\<close> for the species: the product contribution \<open>3 * rate\<close> is rounded before it is
  added. The formula of the claim gives \<open>7205759403792794 / 2^55\<close>, whether it is
  evaluated with the operations of \<^verbatim>\<open>double\<close> or exactly.
\<close>

theorem compute_mass_sources_formula_counterexample:
  "preconditions_double tripling (Finite 300) (Finite 1) (Finite 1) [Finite 1] [Finite 1]
     [Finite 0] [Finite 5] \<and>
   species_ids_in_range (reaction_set tripling) \<and>
   round_double (3602879701896397 / 36028797018963968) =
     Finite (3602879701896397 / 36028797018963968) \<and>
   compute_mass_sources_double tripling (Finite 300) (Finite 1) (Finite 1) [Finite 1]
       [Finite 1] [Finite 0] [Finite 5] =
     Returned
       (tripling\<lparr> net_reaction_rates := [Finite (3602879701896397 / 36028797018963968)] \<rparr>)
       [Finite (7205759403792795 / 36028797018963968)] \<and>
   double_mul (M (chemical_mixture (reaction_set tripling)) 0)
       (double_mul (Finite (3602879701896397 / 36028797018963968))
          (double_sub (double_of_unsigned 3) (double_of_unsigned 1))) =
     Finite (7205759403792794 / 36028797018963968) \<and>
   1 * net_molar_rate (reactions (reaction_set tripling))
         [3602879701896397 / 36028797018963968 :: rat] 0 =
     7205759403792794 / 36028797018963968 \<and>
   (7205759403792795 / 36028797018963968 :: rat) \<noteq> 7205759403792794 / 36028797018963968"
  by (simp add: double_eval tripling_def preconditions_double_def species_ids_in_range_def
        entries_in_range_def net_molar_rate_def net_stoich_def stoich_sum_def)

text \<open>
  C2. In a system of two species with molar masses 2 and 4 and the single reaction
  A \<open>\<rightarrow>\<close> B (reactant coefficient 1 for A, product coefficient 1 for B), when the
  aggregator returns the net rate 3 for the reaction, every valid call returns with the
  mass sources \<open>[-6, 12]\<close>.
\<close>

theorem A_to_B_mass_sources:
  fixes this :: "'a::linordered_idom Kinetics"
  assumes "molar_masses (chemical_mixture (reaction_set this)) = [2, 4]"
    and "reactions (reaction_set this) = [\<lparr> reactants = [(0, 1)], products = [(1, 1)] \<rparr>]"
    and "rate_law (reaction_set this) T rho R_mix mass_fractions molar_densities
           h_RT_minus_s_R 0 = 3"
    and "preconditions this T rho R_mix mass_fractions molar_densities h_RT_minus_s_R
           mass_sources"
  shows "compute_mass_sources this T rho R_mix mass_fractions molar_densities h_RT_minus_s_R
           mass_sources =
         Returned (this\<lparr> net_reaction_rates := [3] \<rparr>) [- 6, 12]"
proof -
  have len: "length (net_reaction_rates this) = ReactionSet_n_reactions (reaction_set this)"
    using assms(4) by (simp add: preconditions_def n_reactions_def)
  have rates: "compute_reaction_rates (reaction_set this) T rho R_mix mass_fractions
      molar_densities h_RT_minus_s_R (net_reaction_rates this) = [3]"
    using assms(2,3) by (simp add: compute_reaction_rates_eq[OF len] ReactionSet_n_reactions_def)
  show ?thesis
    using assms(1,2)
    by (simp add: compute_mass_sources_closed_form[OF assms(4) in_range_A_to_B[OF assms(1,2)]]
          rates net_molar_rate_def net_stoich_def n_species_def ChemicalMixture_n_species_def
          M_def stoich_sum_def)
qed

theorem A_to_B_mass_sources_witness:
  "molar_masses (chemical_mixture (reaction_set (Kinetics_ctor A_to_B))) = [2, 4] \<and>
   reactions (reaction_set (Kinetics_ctor A_to_B)) =
     [\<lparr> reactants = [(0, 1)], products = [(1, 1)] \<rparr>] \<and>
   rate_law (reaction_set (Kinetics_ctor A_to_B)) 1500 (1/4) 287 [1/5, 4/5] [3, 6] [- 2, 5] 0 = 3 \<and>
   preconditions (Kinetics_ctor A_to_B) 1500 (1/4) 287 [1/5, 4/5] [3, 6] [- 2, 5] [100, - 100] \<and>
   compute_mass_sources (Kinetics_ctor A_to_B) 1500 (1/4) 287 [1/5, 4/5] [3, 6] [- 2, 5]
       [100, - 100] =
     Returned ((Kinetics_ctor A_to_B)\<lparr> net_reaction_rates := [3] \<rparr>) [- 6, 12]"
  using A_to_B_mass_sources
          [of "Kinetics_ctor A_to_B" 1500 "1/4" 287 "[1/5, 4/5]" "[3, 6]" "[- 2, 5]"
             "[100, - 100]"]
  by (simp add: scenario_simps)

text \<open>
  C3. A species may be a reactant and a product of the same reaction, and its two
  contributions add up: for the reaction 2A \<open>\<rightarrow>\<close> A + B with net rate 1 and molar
  masses 1 and 1, every valid call returns with the mass source \<open>-1\<close> for A and \<open>1\<close>
  for B.
\<close>

theorem self_pairing_mass_sources:
  fixes this :: "'a::linordered_idom Kinetics"
  assumes "molar_masses (chemical_mixture (reaction_set this)) = [1, 1]"
    and "reactions (reaction_set this) =
           [\<lparr> reactants = [(0, 2)], products = [(0, 1), (1, 1)] \<rparr>]"
    and "rate_law (reaction_set this) T rho R_mix mass_fractions molar_densities
           h_RT_minus_s_R 0 = 1"
    and "preconditions this T rho R_mix mass_fractions molar_densities h_RT_minus_s_R
           mass_sources"
  shows "compute_mass_sources this T rho R_mix mass_fractions molar_densities h_RT_minus_s_R
           mass_sources =
         Returned (this\<lparr> net_reaction_rates := [1] \<rparr>) [- 1, 1]"
proof -
  have len: "length (net_reaction_rates this) = ReactionSet_n_reactions (reaction_set this)"
    using assms(4) by (simp add: preconditions_def n_reactions_def)
  have rates: "compute_reaction_rates (reaction_set this) T rho R_mix mass_fractions
      molar_densities h_RT_minus_s_R (net_reaction_rates this) = [1]"
    using assms(2,3) by (simp add: compute_reaction_rates_eq[OF len] ReactionSet_n_reactions_def)
  show ?thesis
    using assms(1,2)
    by (simp add: compute_mass_sources_closed_form[OF assms(4) in_range_self_pairing[OF assms(1,2)]]
          rates net_molar_rate_def net_stoich_def n_species_def ChemicalMixture_n_species_def
          M_def stoich_sum_def)
qed

theorem self_pairing_mass_sources_witness:
  "molar_masses (chemical_mixture (reaction_set (Kinetics_ctor self_pairing))) = [1, 1] \<and>
   reactions (reaction_set (Kinetics_ctor self_pairing)) =
     [\<lparr> reactants = [(0, 2)], products = [(0, 1), (1, 1)] \<rparr>] \<and>
   rate_law (reaction_set (Kinetics_ctor self_pairing)) 900 2 8 [1, 0] [4, 0] [1, 1] 0 = 1 \<and>
   preconditions (Kinetics_ctor self_pairing) 900 2 8 [1, 0] [4, 0] [1, 1] [5, 5] \<and>
   compute_mass_sources (Kinetics_ctor self_pairing) 900 2 8 [1, 0] [4, 0] [1, 1] [5, 5] =
     Returned ((Kinetics_ctor self_pairing)\<lparr> net_reaction_rates := [1] \<rparr>) [- 1, 1]"
  using self_pairing_mass_sources
          [of "Kinetics_ctor self_pairing" 900 2 8 "[1, 0]" "[4, 0]" "[1, 1]" "[5, 5]"]
  by (simp add: scenario_simps)

section \<open>Conservation and symmetry\<close>

text \<open>
  Mass conservation in exact arithmetic (the half of C4 that does not involve rounding):
  when every reaction of the set conserves mass, a valid call returns mass sources whose
  sum over all species is exactly zero, whatever rates the aggregator returns.
\<close>

theorem mass_conservation:
  fixes this :: "'a::linordered_idom Kinetics"
  assumes "preconditions this T rho R_mix mass_fractions molar_densities h_RT_minus_s_R
             mass_sources"
    and "species_ids_in_range (reaction_set this)"
    and "list_all (conserves_mass (chemical_mixture (reaction_set this)))
           (reactions (reaction_set this))"
  shows "\<exists>this' mass_sources'.
           compute_mass_sources this T rho R_mix mass_fractions molar_densities h_RT_minus_s_R
             mass_sources = Returned this' mass_sources' \<and>
           sum_list mass_sources' = 0"
proof -
  let ?rs = "reaction_set this"
  let ?rates = "compute_reaction_rates ?rs T rho R_mix mass_fractions molar_densities
                  h_RT_minus_s_R (net_reaction_rates this)"
  have inr: "list_all (entries_in_range (n_species this)) (reactions ?rs)"
    using assms(2) by (simp add: species_ids_in_range_def n_species_def)
  have "(\<Sum>s\<leftarrow>[0..<n_species this].
           M (chemical_mixture ?rs) s * net_molar_rate (reactions ?rs) ?rates s) =
        (\<Sum>r\<leftarrow>[0..<length (reactions ?rs)].
           ?rates ! r * (product_mass (chemical_mixture ?rs) (reactions ?rs ! r) -
                         reactant_mass (chemical_mixture ?rs) (reactions ?rs ! r)))"
    by (rule total_mass_source[OF inr])
  also have "\<dots> = (\<Sum>r\<leftarrow>[0..<length (reactions ?rs)]. 0)"
    using assms(3) by (intro arg_cong[where f = sum_list] map_cong refl)
      (simp add: list_all_length conserves_mass_def)
  finally have "(\<Sum>s\<leftarrow>[0..<n_species this].
           M (chemical_mixture ?rs) s * net_molar_rate (reactions ?rs) ?rates s) = 0"
    by simp
  then show ?thesis
    by (simp add: compute_mass_sources_closed_form[OF assms(1,2)])
qed

theorem mass_conservation_witness:
  "preconditions (Kinetics_ctor water_formation) 1000 1 300 [1/9, 8/9, 0] [5, 3, 0] [1, 2, 3]
     [4, 4, 4] \<and>
   species_ids_in_range (reaction_set (Kinetics_ctor water_formation)) \<and>
   list_all (conserves_mass (chemical_mixture (reaction_set (Kinetics_ctor water_formation))))
     (reactions (reaction_set (Kinetics_ctor water_formation))) \<and>
   (\<exists>this' mass_sources'.
      compute_mass_sources (Kinetics_ctor water_formation) 1000 1 300 [1/9, 8/9, 0] [5, 3, 0]
        [1, 2, 3] [4, 4, 4] = Returned this' mass_sources' \<and>
      sum_list mass_sources' = 0)"
  using mass_conservation
          [of "Kinetics_ctor water_formation" 1000 1 300 "[1/9, 8/9, 0]" "[5, 3, 0]" "[1, 2, 3]"
             "[4, 4, 4]"]
  by (simp add: water_simps conserves_mass_def reactant_mass_def product_mass_def)

text \<open>
  C5. Reversal symmetry: for the same reactions, molar masses and valid state, when the
  aggregator writes the entrywise negation of the net-rate vector, the call returns the
  entrywise negation of the mass-source vector.
\<close>

theorem reversal_symmetry:
  fixes this reversed :: "'a::linordered_idom Kinetics"
  assumes "preconditions this T rho R_mix mass_fractions molar_densities h_RT_minus_s_R
             mass_sources"
    and "preconditions reversed T rho R_mix mass_fractions molar_densities h_RT_minus_s_R
             mass_sources"
    and "species_ids_in_range (reaction_set this)"
    and "chemical_mixture (reaction_set reversed) = chemical_mixture (reaction_set this)"
    and "reactions (reaction_set reversed) = reactions (reaction_set this)"
    and "compute_reaction_rates (reaction_set reversed) T rho R_mix mass_fractions
           molar_densities h_RT_minus_s_R (net_reaction_rates reversed) =
         map uminus
           (compute_reaction_rates (reaction_set this) T rho R_mix mass_fractions
              molar_densities h_RT_minus_s_R (net_reaction_rates this))"
  shows "\<exists>this' reversed' mass_sources'.
           compute_mass_sources this T rho R_mix mass_fractions molar_densities h_RT_minus_s_R
             mass_sources = Returned this' mass_sources' \<and>
           compute_mass_sources reversed T rho R_mix mass_fractions molar_densities
             h_RT_minus_s_R mass_sources = Returned reversed' (map uminus mass_sources')"
proof -
  let ?rates = "compute_reaction_rates (reaction_set this) T rho R_mix mass_fractions
              molar_densities h_RT_minus_s_R (net_reaction_rates this)"
  have wf': "species_ids_in_range (reaction_set reversed)"
    using assms(3,4,5) by (simp add: species_ids_in_range_def)
  have len: "length (reactions (reaction_set this)) \<le> length ?rates"
    using assms(1)
    by (simp add: length_compute_reaction_rates preconditions_def n_reactions_def
          ReactionSet_n_reactions_def)
  have n: "n_species reversed = n_species this"
    using assms(4) by (simp add: n_species_def)
  show ?thesis
    by (simp add: compute_mass_sources_closed_form[OF assms(1,3)]
          compute_mass_sources_closed_form[OF assms(2) wf'] assms(4,5,6) n
          net_molar_rate_uminus[OF len] o_def)
qed

theorem reversal_symmetry_witness:
  "preconditions (Kinetics_ctor water_formation) 1000 1 300 [1/9, 8/9, 0] [5, 3, 0] [1, 2, 3]
     [4, 4, 4] \<and>
   preconditions (Kinetics_ctor (reverse_rates water_formation)) 1000 1 300 [1/9, 8/9, 0]
     [5, 3, 0] [1, 2, 3] [4, 4, 4] \<and>
   species_ids_in_range (reaction_set (Kinetics_ctor water_formation)) \<and>
   compute_reaction_rates (reaction_set (Kinetics_ctor (reverse_rates water_formation)))
       1000 1 300 [1/9, 8/9, 0] [5, 3, 0] [1, 2, 3]
       (net_reaction_rates (Kinetics_ctor (reverse_rates water_formation))) =
     map uminus
       (compute_reaction_rates (reaction_set (Kinetics_ctor water_formation))
          1000 1 300 [1/9, 8/9, 0] [5, 3, 0] [1, 2, 3]
          (net_reaction_rates (Kinetics_ctor water_formation))) \<and>
   (\<exists>this' reversed' mass_sources'.
      compute_mass_sources (Kinetics_ctor water_formation) 1000 1 300 [1/9, 8/9, 0] [5, 3, 0]
        [1, 2, 3] [4, 4, 4] = Returned this' mass_sources' \<and>
      compute_mass_sources (Kinetics_ctor (reverse_rates water_formation)) 1000 1 300
        [1/9, 8/9, 0] [5, 3, 0] [1, 2, 3] [4, 4, 4] =
        Returned reversed' (map uminus mass_sources'))"
  using reversal_symmetry
          [of "Kinetics_ctor water_formation" 1000 1 300 "[1/9, 8/9, 0]" "[5, 3, 0]" "[1, 2, 3]"
             "[4, 4, 4]" "Kinetics_ctor (reverse_rates water_formation)"]
  by (simp add: water_simps reverse_rates_def)

text \<open>
  C6. Overwrite, not accumulate: when a call has returned, a second call on the same
  instance with the same inputs returns with the same instance and the same mass sources,
  whether it is handed the vector that holds the first result or any other vector of the
  same length.
\<close>

theorem overwrite_not_accumulate:
  fixes this :: "'a::linordered_idom Kinetics"
  assumes "compute_mass_sources this T rho R_mix mass_fractions molar_densities h_RT_minus_s_R
             mass_sources = Returned this' mass_sources'"
    and "length again = length mass_sources"
  shows "compute_mass_sources this' T rho R_mix mass_fractions molar_densities h_RT_minus_s_R
           mass_sources' = Returned this' mass_sources' \<and>
         compute_mass_sources this' T rho R_mix mass_fractions molar_densities h_RT_minus_s_R
           again = Returned this' mass_sources'"
proof -
  let ?rates = "compute_reaction_rates (reaction_set this) T rho R_mix mass_fractions
                  molar_densities h_RT_minus_s_R (net_reaction_rates this)"
  let ?k = "this\<lparr> net_reaction_rates := ?rates \<rparr>"
  have pre: "preconditions this T rho R_mix mass_fractions molar_densities h_RT_minus_s_R
               mass_sources"
    using assms(1) by (simp add: compute_mass_sources_unfold split: if_splits)
  with assms(1) have run: "accumulate_and_scale (?k, replicate (length mass_sources) 0) =
      Returned this' mass_sources'"
    by (simp add: compute_mass_sources_unfold)
  from accumulate_and_scale_Returned[OF run]
  have k: "this' = ?k" and len: "length mass_sources' = length mass_sources"
    by simp_all
  have pre': "preconditions this' T rho R_mix mass_fractions molar_densities h_RT_minus_s_R v"
    if "length v = length mass_sources" for v
    using pre that by (simp add: k preconditions_def n_species_def n_reactions_def
          length_compute_reaction_rates)
  have rates: "compute_reaction_rates (reaction_set this') T rho R_mix mass_fractions
      molar_densities h_RT_minus_s_R (net_reaction_rates this') = ?rates"
    using pre by (simp add: k compute_reaction_rates_idem preconditions_def n_reactions_def)
  have same: "this'\<lparr> net_reaction_rates := ?rates \<rparr> = ?k"
    by (simp add: k)
  have "compute_mass_sources this' T rho R_mix mass_fractions molar_densities h_RT_minus_s_R v =
      Returned this' mass_sources'"
    if "length v = length mass_sources" for v
    using run pre'[OF that] by (simp only: compute_mass_sources_unfold if_True rates same that)
  from this[OF len] this[OF assms(2)] show ?thesis
    by (rule conjI)
qed

theorem overwrite_not_accumulate_witness:
  "compute_mass_sources (Kinetics_ctor A_to_B) 300 1 1 [1/2, 1/2] [1, 1] [0, 0] [7, 9] =
     Returned ((Kinetics_ctor A_to_B)\<lparr> net_reaction_rates := [3] \<rparr>) [- 6, 12] \<and>
   length [40, 50 :: real] = length [7, 9 :: real] \<and>
   compute_mass_sources ((Kinetics_ctor A_to_B)\<lparr> net_reaction_rates := [3] \<rparr>) 300 1 1
       [1/2, 1/2] [1, 1] [0, 0] [- 6, 12] =
     Returned ((Kinetics_ctor A_to_B)\<lparr> net_reaction_rates := [3] \<rparr>) [- 6, 12] \<and>
   compute_mass_sources ((Kinetics_ctor A_to_B)\<lparr> net_reaction_rates := [3] \<rparr>) 300 1 1
       [1/2, 1/2] [1, 1] [0, 0] [40, 50] =
     Returned ((Kinetics_ctor A_to_B)\<lparr> net_reaction_rates := [3] \<rparr>) [- 6, 12]"
proof -
  have first: "compute_mass_sources (Kinetics_ctor A_to_B) 300 1 1 [1/2, 1/2] [1, 1] [0, 0]
      [7, 9] = Returned ((Kinetics_ctor A_to_B)\<lparr> net_reaction_rates := [3] \<rparr>) [- 6, 12]"
    by (simp add: eval_simps A_to_B_def)
  have len: "length [40, 50 :: real] = length [7, 9 :: real]"
    by simp
  from first len overwrite_not_accumulate[OF first len] show ?thesis
    by blast
qed

section \<open>Preconditions and the work array\<close>

text \<open>
  C7. Precondition rejection: a call with a temperature, density or mixture gas constant
  that is not positive, or with a \<open>mass_fractions\<close>, \<open>molar_densities\<close>,
  \<open>h_RT_minus_s_R\<close> or \<open>mass_sources\<close> vector whose length is not \<open>n_species\<close>
  (or with a work array whose length is not \<open>n_reactions\<close>), stops at a failed
  assertion with the instance and the output vector untouched; it does not return.
\<close>

theorem precondition_rejection:
  fixes this :: "'a::linordered_idom Kinetics"
  assumes "T \<le> 0 \<or> rho \<le> 0 \<or> R_mix \<le> 0 \<or>
           length mass_fractions \<noteq> n_species this \<or>
           length molar_densities \<noteq> n_species this \<or>
           length h_RT_minus_s_R \<noteq> n_species this \<or>
           length mass_sources \<noteq> n_species this \<or>
           length (net_reaction_rates this) \<noteq> n_reactions this"
  shows "compute_mass_sources this T rho R_mix mass_fractions molar_densities h_RT_minus_s_R
           mass_sources = AssertionFailed this mass_sources"
proof -
  have "\<not> preconditions this T rho R_mix mass_fractions molar_densities h_RT_minus_s_R
             mass_sources"
    using assms by (auto simp: preconditions_def)
  then show ?thesis
    by (simp add: compute_mass_sources_unfold)
qed

theorem precondition_rejection_witness:
  "(0::real) \<le> 0 \<and>
   compute_mass_sources (Kinetics_ctor A_to_B) 0 1 1 [1/2, 1/2] [1, 1] [0, 0] [7, 9] =
     AssertionFailed (Kinetics_ctor A_to_B) [7, 9] \<and>
   length [1/2, 1/4, 1/4 :: real] \<noteq> n_species (Kinetics_ctor A_to_B) \<and>
   compute_mass_sources (Kinetics_ctor A_to_B) 300 1 1 [1/2, 1/4, 1/4] [1, 1] [0, 0] [7, 9] =
     AssertionFailed (Kinetics_ctor A_to_B) [7, 9]"
  using precondition_rejection
          [of 0 1 1 "[1/2, 1/2]" "Kinetics_ctor A_to_B" "[1, 1]" "[0, 0]" "[7, 9]"]
        precondition_rejection
          [of 300 1 1 "[1/2, 1/4, 1/4]" "Kinetics_ctor A_to_B" "[1, 1]" "[0, 0]" "[7, 9]"]
  by (simp add: scenario_simps)

text \<open>
  C8. The work array: the constructor binds the reaction set and allocates the work array
  with \<open>n_reactions\<close> zeros; after any sequence of calls on the constructed instance
  the reaction set is still the bound one, the work array still has length
  \<open>n_reactions\<close>, and \<open>n_species\<close> and \<open>n_reactions\<close> are the counts of the bound
  mixture and reaction set. Every prefix of a sequence of calls is one, so this holds
  before and after every call.
\<close>

theorem scratch_buffer_invariant:
  fixes rs :: "'a::linordered_idom ReactionSet"
  assumes "after_calls (Kinetics_ctor rs) cs = Some this"
  shows "net_reaction_rates (Kinetics_ctor rs) = replicate (ReactionSet_n_reactions rs) 0 \<and>
         reaction_set this = rs \<and>
         length (net_reaction_rates this) = ReactionSet_n_reactions rs \<and>
         n_species this = ChemicalMixture_n_species (chemical_mixture rs) \<and>
         n_reactions this = ReactionSet_n_reactions rs"
proof -
  have inv: "reaction_set this = rs \<and>
      length (net_reaction_rates this) = ReactionSet_n_reactions rs"
    if "after_calls k cs = Some this"
      and "reaction_set k = rs \<and> length (net_reaction_rates k) = ReactionSet_n_reactions rs"
    for k
    using that
  proof (induction k cs rule: after_calls.induct)
    case (1 k)
    then show ?case
      by simp
  next
    case (2 k T rho R_mix mf md h ms cs)
    show ?case
    proof (cases "compute_mass_sources k T rho R_mix mf md h ms")
      case (Returned k' ms')
      have "reaction_set k' = rs \<and>
          length (net_reaction_rates k') = ReactionSet_n_reactions rs"
        using compute_mass_sources_Returned[OF Returned] 2(4)
        by (simp add: length_compute_reaction_rates)
      moreover have "after_calls k' cs = Some this"
        using 2(3) Returned by simp
      ultimately show ?thesis
        using 2(1)[OF Returned] by simp
    next
      case (AssertionFailed k' ms')
      have "reaction_set k' = rs \<and>
          length (net_reaction_rates k') = ReactionSet_n_reactions rs"
        using compute_mass_sources_AssertionFailed[OF AssertionFailed] 2(4)
        by simp
      moreover have "after_calls k' cs = Some this"
        using 2(3) AssertionFailed by simp
      ultimately show ?thesis
        using 2(2)[OF AssertionFailed] by simp
    next
      case OutOfRange
      with 2(3) show ?thesis
        by simp
    qed
  qed
  have "reaction_set (Kinetics_ctor rs) = rs \<and>
      length (net_reaction_rates (Kinetics_ctor rs)) = ReactionSet_n_reactions rs"
    by (simp add: Kinetics_ctor_def)
  from inv[OF assms this] show ?thesis
    by (simp add: Kinetics_ctor_def n_species_def n_reactions_def)
qed

theorem scratch_buffer_invariant_witness:
  "after_calls (Kinetics_ctor A_to_B)
     [(300, 1, 1, [1/2, 1/2], [1, 1], [0, 0], [7, 9]),
      (0, 1, 1, [1/2, 1/2], [1, 1], [0, 0], [- 6, 12])] =
     Some ((Kinetics_ctor A_to_B)\<lparr> net_reaction_rates := [3] \<rparr>) \<and>
   net_reaction_rates (Kinetics_ctor A_to_B) = [0] \<and>
   reaction_set ((Kinetics_ctor A_to_B)\<lparr> net_reaction_rates := [3] \<rparr>) = A_to_B \<and>
   length (net_reaction_rates ((Kinetics_ctor A_to_B)\<lparr> net_reaction_rates := [3] \<rparr>)) = 1 \<and>
   n_species ((Kinetics_ctor A_to_B)\<lparr> net_reaction_rates := [3] \<rparr>) = 2 \<and>
   n_reactions ((Kinetics_ctor A_to_B)\<lparr> net_reaction_rates := [3] \<rparr>) = 1"
proof -
  have first: "compute_mass_sources (Kinetics_ctor A_to_B) 300 1 1 [1/2, 1/2] [1, 1] [0, 0]
      [7, 9] = Returned ((Kinetics_ctor A_to_B)\<lparr> net_reaction_rates := [3] \<rparr>) [- 6, 12]"
    by (simp add: eval_simps A_to_B_def)
  have second: "compute_mass_sources ((Kinetics_ctor A_to_B)\<lparr> net_reaction_rates := [3] \<rparr>)
      0 1 1 [1/2, 1/2] [1, 1] [0, 0] [- 6, 12] =
      AssertionFailed ((Kinetics_ctor A_to_B)\<lparr> net_reaction_rates := [3] \<rparr>) [- 6, 12]"
    by (simp add: eval_simps A_to_B_def)
  have r: "after_calls (Kinetics_ctor A_to_B)
     [(300, 1, 1, [1/2, 1/2], [1, 1], [0, 0], [7, 9]),
      (0, 1, 1, [1/2, 1/2], [1, 1], [0, 0], [- 6, 12])] =
     Some ((Kinetics_ctor A_to_B)\<lparr> net_reaction_rates := [3] \<rparr>)"
    by (simp add: first second)
  from r scratch_buffer_invariant[OF r] show ?thesis
    by (simp add: scenario_simps)
qed

text \<open>
  C9. Atomicity on precondition failure: a call that stops at a failed assertion leaves
  the instance, with its work array, and the caller's \<open>mass_sources\<close> vector exactly
  as they were, and it stops only when a precondition is violated.
\<close>

theorem assertion_failure_is_atomic:
  fixes this :: "'a::linordered_idom Kinetics"
  assumes "compute_mass_sources this T rho R_mix mass_fractions molar_densities h_RT_minus_s_R
             mass_sources = AssertionFailed this' mass_sources'"
  shows "this' = this \<and> mass_sources' = mass_sources \<and>
         \<not> preconditions this T rho R_mix mass_fractions molar_densities h_RT_minus_s_R
             mass_sources"
  using assms
  by (simp add: compute_mass_sources_unfold accumulate_and_scale_not_AssertionFailed
        split: if_splits)

theorem assertion_failure_is_atomic_witness:
  "compute_mass_sources ((Kinetics_ctor A_to_B)\<lparr> net_reaction_rates := [3] \<rparr>) 300 (- 1) 1
       [1/2, 1/2] [1, 1] [0, 0] [- 6, 12] =
     AssertionFailed ((Kinetics_ctor A_to_B)\<lparr> net_reaction_rates := [3] \<rparr>) [- 6, 12] \<and>
   \<not> preconditions ((Kinetics_ctor A_to_B)\<lparr> net_reaction_rates := [3] \<rparr>) 300 (- 1) 1
       [1/2, 1/2] [1, 1] [0, 0] [- 6, 12]"
proof -
  have call: "compute_mass_sources ((Kinetics_ctor A_to_B)\<lparr> net_reaction_rates := [3] \<rparr>)
      300 (- 1) 1 [1/2, 1/2] [1, 1] [0, 0] [- 6, 12] =
     AssertionFailed ((Kinetics_ctor A_to_B)\<lparr> net_reaction_rates := [3] \<rparr>) [- 6, 12]"
    by (simp add: eval_simps A_to_B_def)
  from call assertion_failure_is_atomic[OF call] show ?thesis
    by simp
qed

text \<open>
  C10. The thermodynamic inputs reach the result only through the rates: two valid calls
  on instances bound to the same reaction set, for which the aggregator writes the same
  rate vector, have the same outcome, whatever the two states and the prior contents of
  the two work arrays and output vectors are; and on a reaction set whose entries refer
  to species of the mixture that outcome is a return.
\<close>

theorem rates_determine_mass_sources:
  fixes this this2 :: "'a::linordered_idom Kinetics"
  assumes "preconditions this T rho R_mix mass_fractions molar_densities h_RT_minus_s_R
             mass_sources"
    and "preconditions this2 T2 rho2 R_mix2 mass_fractions2 molar_densities2 h_RT_minus_s_R2
             mass_sources2"
    and "reaction_set this2 = reaction_set this"
    and "compute_reaction_rates (reaction_set this) T rho R_mix mass_fractions
           molar_densities h_RT_minus_s_R (net_reaction_rates this) =
         compute_reaction_rates (reaction_set this2) T2 rho2 R_mix2 mass_fractions2
           molar_densities2 h_RT_minus_s_R2 (net_reaction_rates this2)"
  shows "compute_mass_sources this T rho R_mix mass_fractions molar_densities h_RT_minus_s_R
           mass_sources =
         compute_mass_sources this2 T2 rho2 R_mix2 mass_fractions2 molar_densities2
           h_RT_minus_s_R2 mass_sources2 \<and>
         (species_ids_in_range (reaction_set this) \<longrightarrow>
            (\<exists>this' mass_sources'.
               compute_mass_sources this T rho R_mix mass_fractions molar_densities
                 h_RT_minus_s_R mass_sources = Returned this' mass_sources'))"
proof -
  have len: "length mass_sources2 = length mass_sources"
    using assms(1,2,3) by (simp add: preconditions_def n_species_def)
  have k: "this2\<lparr> net_reaction_rates :=
                compute_reaction_rates (reaction_set this2) T2 rho2 R_mix2 mass_fractions2
                  molar_densities2 h_RT_minus_s_R2 (net_reaction_rates this2) \<rparr> =
           this\<lparr> net_reaction_rates :=
                compute_reaction_rates (reaction_set this) T rho R_mix mass_fractions
                  molar_densities h_RT_minus_s_R (net_reaction_rates this) \<rparr>"
    using assms(3,4) by simp
  have "compute_mass_sources this T rho R_mix mass_fractions molar_densities h_RT_minus_s_R
           mass_sources =
         compute_mass_sources this2 T2 rho2 R_mix2 mass_fractions2 molar_densities2
           h_RT_minus_s_R2 mass_sources2"
    using assms(1,2) by (simp only: compute_mass_sources_unfold if_True k len)
  moreover have "species_ids_in_range (reaction_set this) \<longrightarrow>
            (\<exists>this' mass_sources'.
               compute_mass_sources this T rho R_mix mass_fractions molar_densities
                 h_RT_minus_s_R mass_sources = Returned this' mass_sources')"
    using compute_mass_sources_closed_form[OF assms(1)] by simp
  ultimately show ?thesis
    by (rule conjI)
qed

theorem rates_determine_mass_sources_witness:
  "preconditions (Kinetics_ctor water_formation) 1000 1 300 [1/9, 8/9, 0] [5, 3, 0] [1, 2, 3]
     [4, 4, 4] \<and>
   preconditions ((Kinetics_ctor water_formation)\<lparr> net_reaction_rates := [1/9] \<rparr>)
     500 2 40 [1/2, 1/2, 0] [1, 1, 2/1125] [0, 0, 0] [- 1, 0, 1] \<and>
   compute_reaction_rates (reaction_set (Kinetics_ctor water_formation))
     1000 1 300 [1/9, 8/9, 0] [5, 3, 0] [1, 2, 3]
     (net_reaction_rates (Kinetics_ctor water_formation)) =
   compute_reaction_rates
     (reaction_set ((Kinetics_ctor water_formation)\<lparr> net_reaction_rates := [1/9] \<rparr>))
     500 2 40 [1/2, 1/2, 0] [1, 1, 2/1125] [0, 0, 0]
     (net_reaction_rates ((Kinetics_ctor water_formation)\<lparr> net_reaction_rates := [1/9] \<rparr>)) \<and>
   species_ids_in_range (reaction_set (Kinetics_ctor water_formation)) \<and>
   compute_mass_sources (Kinetics_ctor water_formation) 1000 1 300 [1/9, 8/9, 0] [5, 3, 0]
     [1, 2, 3] [4, 4, 4] =
   compute_mass_sources ((Kinetics_ctor water_formation)\<lparr> net_reaction_rates := [1/9] \<rparr>)
     500 2 40 [1/2, 1/2, 0] [1, 1, 2/1125] [0, 0, 0] [- 1, 0, 1] \<and>
   (\<exists>this' mass_sources'.
      compute_mass_sources (Kinetics_ctor water_formation) 1000 1 300 [1/9, 8/9, 0] [5, 3, 0]
        [1, 2, 3] [4, 4, 4] = Returned this' mass_sources')"
proof -
  have p1: "preconditions (Kinetics_ctor water_formation) 1000 1 300 [1/9, 8/9, 0] [5, 3, 0]
      [1, 2, 3] [4, 4, 4]"
    by (simp add: water_simps)
  have p2: "preconditions ((Kinetics_ctor water_formation)\<lparr> net_reaction_rates := [1/9] \<rparr>)
     500 2 40 [1/2, 1/2, 0] [1, 1, 2/1125] [0, 0, 0] [- 1, 0, 1]"
    by (simp add: water_simps)
  have rs: "reaction_set ((Kinetics_ctor water_formation)\<lparr> net_reaction_rates := [1/9] \<rparr>) =
      reaction_set (Kinetics_ctor water_formation)"
    by (simp add: Kinetics_ctor_def)
  have same: "compute_reaction_rates (reaction_set (Kinetics_ctor water_formation))
        1000 1 300 [1/9, 8/9, 0] [5, 3, 0] [1, 2, 3]
        (net_reaction_rates (Kinetics_ctor water_formation)) =
      compute_reaction_rates
        (reaction_set ((Kinetics_ctor water_formation)\<lparr> net_reaction_rates := [1/9] \<rparr>))
        500 2 40 [1/2, 1/2, 0] [1, 1, 2/1125] [0, 0, 0]
        (net_reaction_rates ((Kinetics_ctor water_formation)\<lparr> net_reaction_rates := [1/9] \<rparr>))"
    by (simp add: water_simps)
  have wf: "species_ids_in_range (reaction_set (Kinetics_ctor water_formation))"
    by (simp add: water_simps)
  from rates_determine_mass_sources[OF p1 p2 rs same] p1 p2 same wf show ?thesis
    by blast
qed

end
